theory Spec2Isabelle
  imports Complex_Main "HOL-Library.Word"
begin

section \<open>JavaScript values used by the recorder scripts\<close>

text \<open>
  The scripts \<^verbatim>\<open>recorder.js\<close> and \<^verbatim>\<open>modal.js\<close> are embedded function by
  function. Exceptions are values of \<open>js_error\<close>; \<^verbatim>\<open>undefined\<close> and \<^verbatim>\<open>null\<close>
  results of lookups are \<open>None\<close>.
\<close>

datatype js_error =
    TypeError
  | ReferenceError string
  | SyntaxError
  | NetworkError
  | NotAllowedError

subsection \<open>Number to string, \<^verbatim>\<open>padStart\<close>, \<^verbatim>\<open>split\<close>, \<^verbatim>\<open>startsWith\<close>\<close>

definition digit_char :: "nat \<Rightarrow> char" where
  "digit_char d = ''0123456789'' ! d"

text \<open>\<^verbatim>\<open>String(n)\<close> for a non-negative integer Number: its decimal digits (the
  numbers converted on this page, seconds, minutes and the parts of a date, stay far below
  \<open>10\<^sup>2\<^sup>1\<close>, where JavaScript would change to exponent notation).\<close>

fun String_nat :: "nat \<Rightarrow> string" where
  "String_nat n =
     (if n < 10 then [digit_char n] else String_nat (n div 10) @ [digit_char (n mod 10)])"

declare String_nat.simps [simp del]

text \<open>\<^verbatim>\<open>String(i)\<close> for an integer Number; \<^verbatim>\<open>String(-0)\<close> is \<^verbatim>\<open>"0"\<close>.\<close>

definition String_int :: "int \<Rightarrow> string" where
  "String_int i = (if i < 0 then CHR ''-'' # String_nat (nat (- i)) else String_nat (nat i))"

text \<open>
  \<^verbatim>\<open>s.padStart(n, p)\<close>: a string at least \<open>n\<close> long (or an empty pad) is returned
  as is; otherwise the pad is repeated and cut to the missing length.
\<close>

definition padStart :: "nat \<Rightarrow> string \<Rightarrow> string \<Rightarrow> string" where
  "padStart n p s =
     (if n \<le> length s \<or> p = [] then s
      else take (n - length s) (concat (replicate (n - length s) p)) @ s)"

definition startsWith :: "string \<Rightarrow> string \<Rightarrow> bool" where
  "startsWith s p = (take (length p) s = p)"

text \<open>
  \<^verbatim>\<open>s.split(sep)\<close> for a non-empty separator: the pieces between the leftmost,
  non-overlapping occurrences of \<open>sep\<close>; the empty string gives one empty piece.
\<close>

function split_js :: "string \<Rightarrow> string \<Rightarrow> string list" where
  "split_js sep [] = [[]]"
| "split_js sep (c # cs) =
     (if sep \<noteq> [] \<and> startsWith (c # cs) sep
      then [] # split_js sep (drop (length sep) (c # cs))
      else (case split_js sep cs of
              [] \<Rightarrow> [[c]]
            | r # rs \<Rightarrow> (c # r) # rs))"
  by pat_completeness auto
termination
  by (relation "measure (\<lambda>(sep, s). length s)") auto

text \<open>\<^verbatim>\<open>xs[i]\<close> on an array: \<^verbatim>\<open>undefined\<close> out of range, never an exception.\<close>

definition index_js :: "'a list \<Rightarrow> nat \<Rightarrow> 'a option" where
  "index_js xs i = (if i < length xs then Some (xs ! i) else None)"

section \<open>\<^verbatim>\<open>recorder.js\<close>: pure helpers\<close>

subsection \<open>\<^verbatim>\<open>formatTime\<close> (lines 4 to 8)\<close>

text \<open>
  The argument is the elapsed-second counter, which starts at 0 and is only incremented,
  so it is a natural number; on these \<^verbatim>\<open>Math.floor(sec / 60)\<close> is \<open>sec div 60\<close> and
  \<^verbatim>\<open>sec % 60\<close> is \<open>sec mod 60\<close>.
\<close>

definition formatTime :: "nat \<Rightarrow> string" where
  "formatTime sec =
     (let minutes = sec div 60;
          seconds = sec mod 60
      in padStart 2 ''0'' (String_nat minutes) @ '':'' @ padStart 2 ''0'' (String_nat seconds))"

subsection \<open>\<^verbatim>\<open>getCSRFToken\<close> (lines 10 to 15)\<close>

text \<open>
  The argument is the value of \<^verbatim>\<open>document.cookie\<close>. \<^verbatim>\<open>find\<close> gives \<^verbatim>\<open>undefined\<close>
  (\<open>None\<close>) when no row matches; the optional chain \<^verbatim>\<open>?.split("=")[1]\<close> then
  short-circuits to \<^verbatim>\<open>undefined\<close>. \<open>member_split\<close> is the plain member call, which
  throws on \<^verbatim>\<open>undefined\<close>; \<open>optional_split\<close> is the call through \<^verbatim>\<open>?.\<close> together
  with the rest of its chain.
\<close>

definition member_split :: "string option \<Rightarrow> string \<Rightarrow> js_error + string list" where
  "member_split v sep = (case v of None \<Rightarrow> Inl TypeError | Some s \<Rightarrow> Inr (split_js sep s))"

definition optional_split_index ::
  "string option \<Rightarrow> string \<Rightarrow> nat \<Rightarrow> js_error + string option" where
  "optional_split_index v sep i =
     (case v of
        None \<Rightarrow> Inr None
      | Some s \<Rightarrow> (case member_split (Some s) sep of
                     Inl e \<Rightarrow> Inl e
                   | Inr parts \<Rightarrow> Inr (index_js parts i)))"

definition getCSRFToken :: "string \<Rightarrow> js_error + string option" where
  "getCSRFToken cookie =
     optional_split_index
       (find (\<lambda>row. startsWith row ''csrftoken='') (split_js ''; '' cookie)) ''='' 1"

subsection \<open>\<^verbatim>\<open>floatTo16BitPCM\<close> (lines 279 to 286)\<close>

text \<open>
  A JavaScript Number as this function meets it: \<^verbatim>\<open>NaN\<close>, the two infinities, or a
  finite value, carried as the rational it denotes (the two zeros are one value; the
  function treats them alike, \<^verbatim>\<open>-0 < 0\<close> being false and both being stored as 0).
  The elements of the \<^verbatim>\<open>Float32Array\<close> read by the loop are such Numbers.
\<close>

datatype number = NaN | NegInfinity | Finite rat | Infinity

text \<open>The comparison \<^verbatim>\<open>a < b\<close>: false as soon as one side is \<^verbatim>\<open>NaN\<close>.\<close>

fun num_less :: "number \<Rightarrow> number \<Rightarrow> bool" where
  "num_less NaN b = False"
| "num_less a NaN = False"
| "num_less NegInfinity NegInfinity = False"
| "num_less NegInfinity b = True"
| "num_less (Finite x) NegInfinity = False"
| "num_less (Finite x) (Finite y) = (x < y)"
| "num_less (Finite x) Infinity = True"
| "num_less Infinity b = False"

text \<open>\<^verbatim>\<open>Math.min(a, b)\<close> and \<^verbatim>\<open>Math.max(a, b)\<close>: \<^verbatim>\<open>NaN\<close> if an argument is.\<close>

definition Math_min :: "number \<Rightarrow> number \<Rightarrow> number" where
  "Math_min a b = (if a = NaN \<or> b = NaN then NaN else if num_less b a then b else a)"

definition Math_max :: "number \<Rightarrow> number \<Rightarrow> number" where
  "Math_max a b = (if a = NaN \<or> b = NaN then NaN else if num_less a b then b else a)"

text \<open>
  The product \<^verbatim>\<open>a * b\<close>. On finite operands it is the exact product: the function
  multiplies a clamped 32-bit float by \<^verbatim>\<open>0x8000\<close> or \<^verbatim>\<open>0x7FFF\<close>, and such a product
  needs no rounding in double precision (\<open>binary32_times_scale_exact\<close> below).
\<close>

fun num_times :: "number \<Rightarrow> number \<Rightarrow> number" where
  "num_times NaN b = NaN"
| "num_times a NaN = NaN"
| "num_times (Finite x) (Finite y) = Finite (x * y)"
| "num_times (Finite x) Infinity = (if x = 0 then NaN else if x < 0 then NegInfinity else Infinity)"
| "num_times (Finite x) NegInfinity = (if x = 0 then NaN else if x < 0 then Infinity else NegInfinity)"
| "num_times Infinity (Finite y) = (if y = 0 then NaN else if y < 0 then NegInfinity else Infinity)"
| "num_times NegInfinity (Finite y) = (if y = 0 then NaN else if y < 0 then Infinity else NegInfinity)"
| "num_times Infinity Infinity = Infinity"
| "num_times Infinity NegInfinity = NegInfinity"
| "num_times NegInfinity Infinity = NegInfinity"
| "num_times NegInfinity NegInfinity = Infinity"

text \<open>Rounding towards zero, the first step of every conversion to an integer type.\<close>

definition truncate_rat :: "rat \<Rightarrow> int" where
  "truncate_rat r = (if r < 0 then - \<lfloor>- r\<rfloor> else \<lfloor>r\<rfloor>)"

text \<open>
  Storing a Number in an \<^verbatim>\<open>Int16Array\<close> element: \<^verbatim>\<open>NaN\<close> and the infinities become
  0, a finite value is truncated and reduced modulo \<open>2 ^ 16\<close>.
\<close>

fun ToInt16 :: "number \<Rightarrow> 16 word" where
  "ToInt16 (Finite r) = word_of_int (truncate_rat r)"
| "ToInt16 v = 0"

text \<open>The body of the loop, for one element, and the loop over the array.\<close>

definition floatTo16BitPCM_sample :: "number \<Rightarrow> 16 word" where
  "floatTo16BitPCM_sample x =
     (let s = Math_max (Finite (- 1)) (Math_min (Finite 1) x)
      in ToInt16 (if num_less s (Finite 0) then num_times s (Finite 32768)
                  else num_times s (Finite 32767)))"

definition floatTo16BitPCM :: "number list \<Rightarrow> 16 word list" where
  "floatTo16BitPCM input = map floatTo16BitPCM_sample input"

text \<open>
  The finite values of the binary floating-point formats: a significand of fewer than
  \<open>p\<close> bits times a power of two in the format's exponent range.
\<close>

definition binary_value :: "nat \<Rightarrow> int \<Rightarrow> int \<Rightarrow> rat \<Rightarrow> bool" where
  "binary_value p emin emax r \<longleftrightarrow>
     (\<exists>m e. \<bar>m\<bar> < 2 ^ p \<and> emin \<le> e \<and> e \<le> emax \<and> r = of_int m * 2 powi e)"

abbreviation binary32 :: "rat \<Rightarrow> bool" where
  "binary32 \<equiv> binary_value 24 (- 149) 104"

abbreviation binary64 :: "rat \<Rightarrow> bool" where
  "binary64 \<equiv> binary_value 53 (- 1074) 971"

section \<open>The page: variables, document and environment\<close>

subsection \<open>Values that travel between the handlers\<close>

text \<open>A \<^verbatim>\<open>Blob\<close>: its bytes and its type. An encoder chunk is an \<^verbatim>\<open>Int8Array\<close>.\<close>

type_synonym chunk = "8 word list"

record blob =
  blob_bytes :: "8 word list"
  blob_type :: string

text \<open>\<^verbatim>\<open>new Blob(parts, {type: t})\<close> concatenates the parts in order.\<close>

definition Blob :: "chunk list \<Rightarrow> string \<Rightarrow> blob" where
  "Blob parts t = \<lparr>blob_bytes = concat parts, blob_type = t\<rparr>"

text \<open>A URL is either the object URL made for a blob or a string written in the script.\<close>

datatype url = ObjectURL blob | URLString string

definition createObjectURL :: "blob \<Rightarrow> url" where
  "createObjectURL b = ObjectURL b"

text \<open>
  A \<^verbatim>\<open>FormData\<close> object is its list of entries, in the order of the \<^verbatim>\<open>append\<close>
  calls; a value that is not a blob is converted to a string.
\<close>

datatype form_value = FileEntry blob string | TextEntry string

type_synonym form_data = "(string \<times> form_value) list"

text \<open>A value bound to a name of the global scope.\<close>

datatype js_value =
    JUndefined
  | JFunction string
  | JElement string
  | JString string
  | JNumber int
  | JFormData form_data

record request =
  request_url :: url
  request_method :: string
  request_csrf :: "string option"
  request_body :: js_value

text \<open>
  The two capture flows of the page, and the calls that leave the page (audio graph,
  media stream, encoder, timers, network, console), which the handlers log in program
  order.
\<close>

datatype flow = Primary | VoiceChat

datatype promise = UserMediaPromise flow | FetchPromise flow

datatype effect =
    GetUserMedia flow
  | Disconnect flow nat
  | StopTracks flow
  | Flush flow
  | SetInterval nat
  | ClearInterval "nat option"
  | Fetch request
  | ConsoleError js_error

text \<open>
  The \<^verbatim>\<open>lamejs\<close> library is not part of the repository: its encoder is a parameter.
  \<open>Mp3Encoder channels rate kbps\<close> is a new encoder; \<open>encodeBuffer\<close> and \<open>flush\<close>
  return the encoder after the call and the bytes produced.
\<close>

record 'e lamejs =
  Mp3Encoder :: "nat \<Rightarrow> nat \<Rightarrow> nat \<Rightarrow> 'e"
  encodeBuffer :: "'e \<Rightarrow> 16 word list \<Rightarrow> 'e \<times> chunk"
  flush :: "'e \<Rightarrow> 'e \<times> chunk"

text \<open>What the getters of a \<^verbatim>\<open>Date\<close> return (\<^verbatim>\<open>getMonth\<close> counts from 0).\<close>

record date =
  getFullYear :: nat
  getMonth :: nat
  getDate :: nat
  getHours :: nat
  getMinutes :: nat
  getSeconds :: nat

subsection \<open>Elements of the document\<close>

text \<open>
  The element with id \<^verbatim>\<open>modal\<close>: its inline \<^verbatim>\<open>style.display\<close> and the text of its
  descendants of class \<^verbatim>\<open>modal-content\<close>, in document order.
\<close>

record modal_element =
  modal_display :: string
  modal_contents :: "string list"

text \<open>A transcript form: the values of its controls named \<^verbatim>\<open>filename\<close> and
  \<^verbatim>\<open>transcript\<close> (\<open>None\<close>: the form has no such control).\<close>

record form_element =
  filename_value :: "string option"
  transcript_value :: "string option"

record button_element =
  button_name :: string
  button_form :: string

subsection \<open>The server's answer\<close>

text \<open>
  The parsed JSON body, as far as the callbacks read it: \<^verbatim>\<open>data.context\<close>, below it
  \<^verbatim>\<open>transcription\<close> (with \<^verbatim>\<open>filename\<close>, \<^verbatim>\<open>transcript\<close>, \<^verbatim>\<open>formatted_text\<close>) and
  \<^verbatim>\<open>transcript\<close>. \<open>None\<close> is a missing property (\<^verbatim>\<open>undefined\<close>); the leaves are
  strings, as the server sends them.
\<close>

record transcription_json =
  tr_filename :: "string option"
  tr_transcript :: "string option"
  tr_formatted_text :: "string option"

record context_json =
  ctx_transcription :: "transcription_json option"
  ctx_transcript :: "string option"

datatype response_body =
    NotJSON
  | JsonNull
  | JsonValue "context_json option"

datatype fetch_outcome = Rejected js_error | Responded response_body

text \<open>\<^verbatim>\<open>undefined\<close> written into a string property or a template literal.\<close>

definition string_of_leaf :: "string option \<Rightarrow> string" where
  "string_of_leaf v = (case v of None \<Rightarrow> ''undefined'' | Some s \<Rightarrow> s)"

subsection \<open>The state\<close>

text \<open>
  The variables of the \<^verbatim>\<open>DOMContentLoaded\<close> callback (lines 75 to 100 and 106), the
  parts of the document the handlers touch, and the environment.

  \<^item> A variable that holds \<^verbatim>\<open>undefined\<close> is \<open>None\<close>.
  \<^item> \<open>nodes\<close> and \<open>chatNodes\<close> are the \<^verbatim>\<open>ScriptProcessorNode\<close>s created so far by
    the two start handlers, each with the flag whether it is connected;
    \<open>scriptProcessor\<close> and \<open>chatScriptProcessor\<close> name the node the variable refers to.
  \<^item> \<open>micStream\<close> and \<open>chatMicStream\<close> carry whether the tracks of the stream are live;
    \<open>audioContext\<close> and \<open>chatAudioContext\<close> carry the sample rate.
  \<^item> \<open>timers\<close> are the intervals created so far, with the flag whether they still run.
  \<^item> \<open>pending\<close> are the promises a handler is waiting for (a \<^verbatim>\<open>getUserMedia\<close> call, a
    \<^verbatim>\<open>fetch\<close>) that have not settled yet.
  \<^item> An element looked up with \<^verbatim>\<open>getElementById\<close> when a handler runs is \<open>None\<close> when
    it is missing. The elements dereferenced while the page loads (the four buttons,
    the download link, the \<^verbatim>\<open>timezone_offset\<close> input) exist, else no handler would
    have been installed.
\<close>

record 'e page =
  audioContext :: "nat option"
  micStream :: "bool option"
  scriptProcessor :: "nat option"
  mp3Encoder :: "'e option"
  mp3Data :: "chunk list"
  chatAudioContext :: "nat option"
  chatMicStream :: "bool option"
  chatScriptProcessor :: "nat option"
  chatMp3Encoder :: "'e option"
  chatMp3Data :: "chunk list"
  timerInterval :: "nat option"
  seconds :: nat
  timezoneOffset :: int
  nodes :: "bool list"
  chatNodes :: "bool list"
  timers :: "bool list"
  pending :: "promise list"
  startBtn_disabled :: bool
  stopBtn_disabled :: bool
  audioPlayback_src :: "url option"
  downloadLink_href :: url
  downloadLink_download :: string
  downloadLink_display :: string
  timerDisplay :: "string option"
  timezone_offset_value :: string
  local_datetime_value :: "string option"
  voiceChatStartBtn_disabled :: bool
  voiceChatStartBtn_display :: string
  voiceChatStopBtn_disabled :: bool
  voiceChatStopBtn_display :: string
  no_transcription_message_display :: "string option"
  form_container_display :: "string option"
  reformat :: "form_element option"
  reformat_edited :: "form_element option"
  buttons :: "button_element list"
  soap_iframe_body :: "string option option"
  edit_chat_input :: "string option"
  modal :: "modal_element option"
  document_cookie :: string
  globals :: "string \<Rightarrow> js_value option"
  effects :: "effect list"

text \<open>
  A handler either returns, or throws with the state as it is at the throw.
\<close>

datatype ('a, 's) result = Return 'a 's | Throw js_error 's

fun state_of :: "('a, 's) result \<Rightarrow> 's" where
  "state_of (Return a s) = s"
| "state_of (Throw e s) = s"

fun returns :: "('a, 's) result \<Rightarrow> bool" where
  "returns (Return a s) = True"
| "returns (Throw e s) = False"

section \<open>\<^verbatim>\<open>modal.js\<close>\<close>

text \<open>
  \<open>textModal\<close> (lines 4 to 10). The assignment to the undeclared name \<^verbatim>\<open>container\<close>
  binds it in the global scope; when the modal has no \<^verbatim>\<open>modal-content\<close> descendant
  the name is bound to \<^verbatim>\<open>undefined\<close> and writing its \<^verbatim>\<open>textContent\<close> throws.
\<close>

definition textModal :: "string \<Rightarrow> 'e page \<Rightarrow> (unit, 'e page) result" where
  "textModal content s =
     (case modal s of
        None \<Rightarrow> Throw TypeError s
      | Some m \<Rightarrow>
          (case modal_contents m of
             [] \<Rightarrow>
               Throw TypeError
                 (s\<lparr>modal := Some (m\<lparr>modal_display := ''block''\<rparr>),
                    globals := (globals s)(''container'' \<mapsto> JUndefined)\<rparr>)
           | c # cs \<Rightarrow>
               Return ()
                 (s\<lparr>modal := Some (m\<lparr>modal_display := ''block'', modal_contents := content # cs\<rparr>),
                    globals := (globals s)(''container'' \<mapsto> JElement ''modal-content'')\<rparr>)))"

text \<open>\<open>staticModal\<close> (lines 13 to 16) and \<open>closeModal\<close> (lines 19 to 22).\<close>

definition staticModal :: "'e page \<Rightarrow> (unit, 'e page) result" where
  "staticModal s =
     (case modal s of
        None \<Rightarrow> Throw TypeError s
      | Some m \<Rightarrow> Return () (s\<lparr>modal := Some (m\<lparr>modal_display := ''block''\<rparr>)\<rparr>))"

definition closeModal :: "'e page \<Rightarrow> (unit, 'e page) result" where
  "closeModal s =
     (case modal s of
        None \<Rightarrow> Throw TypeError s
      | Some m \<Rightarrow> Return () (s\<lparr>modal := Some (m\<lparr>modal_display := ''none''\<rparr>)\<rparr>))"

text \<open>The modal is hidden when its inline display is \<^verbatim>\<open>none\<close>.\<close>

definition modal_hidden :: "'e page \<Rightarrow> bool" where
  "modal_hidden s = (case modal s of None \<Rightarrow> False | Some m \<Rightarrow> modal_display m = ''none'')"

definition modal_shown :: "'e page \<Rightarrow> bool" where
  "modal_shown s = (case modal s of None \<Rightarrow> False | Some m \<Rightarrow> modal_display m = ''block'')"

section \<open>\<^verbatim>\<open>recorder.js\<close>: the transcription exchange\<close>

definition console_error :: "js_error \<Rightarrow> 'e page \<Rightarrow> 'e page" where
  "console_error e s = s\<lparr>effects := effects s @ [ConsoleError e]\<rparr>"

text \<open>
  \<open>fetchTranscription\<close> (lines 17 to 24), up to the call of \<^verbatim>\<open>fetch\<close>. The function has
  one parameter, \<^verbatim>\<open>url\<close>; the name \<^verbatim>\<open>formData\<close> in its body is not declared in the
  function nor around it, so it is looked up in the global scope, and an unbound name
  throws before \<^verbatim>\<open>fetch\<close> is called.
\<close>

definition fetchTranscription :: "url \<Rightarrow> 'e page \<Rightarrow> (unit, 'e page) result" where
  "fetchTranscription url s =
     (case getCSRFToken (document_cookie s) of
        Inl e \<Rightarrow> Throw e s
      | Inr csrf \<Rightarrow>
          (case globals s ''formData'' of
             None \<Rightarrow> Throw (ReferenceError ''formData'') s
           | Some formData \<Rightarrow>
               Return ()
                 (s\<lparr>effects := effects s @
                      [Fetch \<lparr>request_url = url, request_method = ''POST'',
                              request_csrf = csrf, request_body = formData\<rparr>],
                    pending := pending s @ [FetchPromise Primary]\<rparr>)))"

fun first_index :: "('a \<Rightarrow> bool) \<Rightarrow> 'a list \<Rightarrow> nat option" where
  "first_index P [] = None"
| "first_index P (x # xs) = (if P x then Some 0 else map_option Suc (first_index P xs))"

text \<open>
  The callback on the parsed data (lines 25 to 68). Every dereference of a missing
  element or of a missing part of the data throws a \<^verbatim>\<open>TypeError\<close>.
\<close>

definition fetchTranscription_data :: "response_body \<Rightarrow> 'e page \<Rightarrow> (unit, 'e page) result" where
  "fetchTranscription_data data s =
     (case no_transcription_message_display s of
        None \<Rightarrow> Throw TypeError s
      | Some d \<Rightarrow>
     let s1 = s\<lparr>no_transcription_message_display := Some ''none''\<rparr>;
         formContainer = form_container_display s1;
         renamed =
           (case reformat s1 of
              Some form \<Rightarrow> Return form s1
            | None \<Rightarrow>
                (case reformat_edited s1 of
                   None \<Rightarrow> Throw TypeError s1
                 | Some form \<Rightarrow>
                     let s2 = s1\<lparr>reformat := Some form, reformat_edited := None\<rparr> in
                     (case first_index (\<lambda>b. button_name b = ''reformat_edited'') (buttons s2) of
                        None \<Rightarrow> Throw TypeError s2
                      | Some i \<Rightarrow>
                          Return form
                            (s2\<lparr>buttons := (buttons s2)
                                 [i := \<lparr>button_name = ''reformat'', button_form = ''reformat''\<rparr>]\<rparr>))))
     in
     (case renamed of
        Throw e s' \<Rightarrow> Throw e s'
      | Return form s3 \<Rightarrow>
     (case data of
        NotJSON \<Rightarrow> Throw SyntaxError s3
      | JsonNull \<Rightarrow> Throw TypeError s3
      | JsonValue None \<Rightarrow> Throw TypeError s3
      | JsonValue (Some ctx) \<Rightarrow>
     (case ctx_transcription ctx of
        None \<Rightarrow> Throw TypeError s3
      | Some tr \<Rightarrow>
     (case filename_value form of
        None \<Rightarrow> Throw TypeError s3
      | Some old_filename \<Rightarrow>
     let form1 = form\<lparr>filename_value := Some (string_of_leaf (tr_filename tr))\<rparr>;
         s4 = s3\<lparr>reformat := Some form1\<rparr>
     in
     (case transcript_value form1 of
        None \<Rightarrow> Throw TypeError s4
      | Some old_transcript \<Rightarrow>
     let form2 = form1\<lparr>transcript_value := Some (string_of_leaf (tr_transcript tr))\<rparr>;
         s5 = s4\<lparr>reformat := Some form2\<rparr>
     in
     (case soap_iframe_body s5 of
        None \<Rightarrow> Throw TypeError s5
      | Some None \<Rightarrow> Throw TypeError s5
      | Some (Some old_html) \<Rightarrow>
     let s6 = s5\<lparr>soap_iframe_body := Some (Some (string_of_leaf (tr_formatted_text tr)))\<rparr>;
         s7 = (case formContainer of
                 None \<Rightarrow> s6
               | Some d \<Rightarrow> s6\<lparr>form_container_display := Some ''block''\<rparr>)
     in closeModal s7)))))))"

text \<open>
  The promise chain of \<open>fetchTranscription\<close> once the request has settled:
  \<^verbatim>\<open>.then(response => response.json()).then(data => ...).catch(error => ...)\<close>.
  A rejected \<^verbatim>\<open>fetch\<close>, a body that is not JSON and an exception in the data callback
  all end in the \<^verbatim>\<open>catch\<close> callback, which writes to the console.
\<close>

definition fetchTranscription_settled :: "fetch_outcome \<Rightarrow> 'e page \<Rightarrow> 'e page" where
  "fetchTranscription_settled outcome s =
     (case outcome of
        Rejected e \<Rightarrow> console_error e s
      | Responded NotJSON \<Rightarrow> console_error SyntaxError s
      | Responded data \<Rightarrow>
          (case fetchTranscription_data data s of
             Return u s' \<Rightarrow> s'
           | Throw e s' \<Rightarrow> console_error e s'))"

section \<open>\<^verbatim>\<open>recorder.js\<close>: the \<^verbatim>\<open>DOMContentLoaded\<close> callback\<close>

text \<open>
  Lines 75 to 110: the initial values of the variables, the hidden download link and the
  time zone offset. The argument is what \<^verbatim>\<open>new Date().getTimezoneOffset()\<close> returns.
\<close>

definition DOMContentLoaded :: "int \<Rightarrow> 'e page \<Rightarrow> 'e page" where
  "DOMContentLoaded platform_offset s =
     s\<lparr>audioContext := None, micStream := None, scriptProcessor := None, mp3Encoder := None,
       mp3Data := [],
       chatAudioContext := None, chatMicStream := None, chatScriptProcessor := None,
       chatMp3Encoder := None, chatMp3Data := [],
       timerInterval := None, seconds := 0,
       downloadLink_display := ''none'',
       timezoneOffset := platform_offset,
       timezone_offset_value := String_int (- platform_offset)\<rparr>"

subsection \<open>The primary recording: start (lines 113 to 141)\<close>

text \<open>
  The handler is asynchronous. \<open>startBtn_onclick\<close> is the part before the \<^verbatim>\<open>await\<close>;
  \<open>startBtn_onclick_resume\<close> is the part after it, run when \<^verbatim>\<open>getUserMedia\<close> settles
  (\<open>granted\<close> tells how). A rejection ends the handler with an unhandled rejection.
\<close>

definition startBtn_onclick :: "nat \<Rightarrow> 'e page \<Rightarrow> (unit, 'e page) result" where
  "startBtn_onclick sampleRate s =
     Return () (s\<lparr>audioContext := Some sampleRate,
                  effects := effects s @ [GetUserMedia Primary],
                  pending := pending s @ [UserMediaPromise Primary]\<rparr>)"

definition startBtn_onclick_resume ::
  "'e lamejs \<Rightarrow> bool \<Rightarrow> 'e page \<Rightarrow> (unit, 'e page) result" where
  "startBtn_onclick_resume L granted s =
     (if \<not> granted then Throw NotAllowedError s
      else
        let s1 = s\<lparr>micStream := Some True\<rparr> in
        (case audioContext s1 of
           None \<Rightarrow> Throw TypeError s1
         | Some sampleRate \<Rightarrow>
             let i = length (nodes s1);
                 s2 = s1\<lparr>nodes := nodes s1 @ [False], scriptProcessor := Some i,
                        mp3Encoder := Some (Mp3Encoder L 1 sampleRate 128), mp3Data := []\<rparr>;
                 s3 = s2\<lparr>nodes := (nodes s2)[i := True],
                        startBtn_disabled := True, stopBtn_disabled := False, seconds := 0\<rparr>
             in
             (case timerDisplay s3 of
                None \<Rightarrow> Throw TypeError s3
              | Some text \<Rightarrow>
                  let t = length (timers s3) in
                  Return ()
                    (s3\<lparr>timerDisplay := Some ''Recording: 00:00'',
                        timers := timers s3 @ [True], timerInterval := Some t,
                        effects := effects s3 @ [SetInterval t]\<rparr>))))"

text \<open>The audio-processing callback installed on the node (lines 121 to 127).\<close>

definition onaudioprocess :: "'e lamejs \<Rightarrow> number list \<Rightarrow> 'e page \<Rightarrow> (unit, 'e page) result" where
  "onaudioprocess L input s =
     (let int16 = floatTo16BitPCM input in
      (case mp3Encoder s of
         None \<Rightarrow> Throw TypeError s
       | Some enc \<Rightarrow>
           let (enc', mp3buf) = encodeBuffer L enc int16;
               s1 = s\<lparr>mp3Encoder := Some enc'\<rparr>
           in Return () (if length mp3buf > 0 then s1\<lparr>mp3Data := mp3Data s1 @ [mp3buf]\<rparr> else s1)))"

text \<open>The interval callback (lines 137 to 140).\<close>

definition timer_callback :: "'e page \<Rightarrow> (unit, 'e page) result" where
  "timer_callback s =
     (let s1 = s\<lparr>seconds := seconds s + 1\<rparr> in
      (case timerDisplay s1 of
         None \<Rightarrow> Throw TypeError s1
       | Some text \<Rightarrow>
           Return () (s1\<lparr>timerDisplay := Some (''Recording: '' @ formatTime (seconds s1))\<rparr>)))"

subsection \<open>The primary recording: stop (lines 143 to 199)\<close>

definition clearInterval :: "nat option \<Rightarrow> 'e page \<Rightarrow> 'e page" where
  "clearInterval t s =
     s\<lparr>timers := (case t of None \<Rightarrow> timers s | Some k \<Rightarrow> (timers s)[k := False]),
       effects := effects s @ [ClearInterval t]\<rparr>"

text \<open>Lines 144 to 153: disconnect, stop the tracks, flush, build the blob.\<close>

definition stop_capture :: "'e lamejs \<Rightarrow> 'e page \<Rightarrow> (blob \<times> url, 'e page) result" where
  "stop_capture L s =
     (case scriptProcessor s of
        None \<Rightarrow> Throw TypeError s
      | Some i \<Rightarrow>
     let s1 = s\<lparr>nodes := (nodes s)[i := False], effects := effects s @ [Disconnect Primary i]\<rparr> in
     (case micStream s1 of
        None \<Rightarrow> Throw TypeError s1
      | Some live \<Rightarrow>
     let s2 = s1\<lparr>micStream := Some False, effects := effects s1 @ [StopTracks Primary]\<rparr> in
     (case mp3Encoder s2 of
        None \<Rightarrow> Throw TypeError s2
      | Some enc \<Rightarrow>
     let (enc', mp3buf) = flush L enc;
         s3 = s2\<lparr>mp3Encoder := Some enc', effects := effects s2 @ [Flush Primary]\<rparr>;
         s4 = (if length mp3buf > 0 then s3\<lparr>mp3Data := mp3Data s3 @ [mp3buf]\<rparr> else s3);
         blob = Blob (mp3Data s4) ''audio/mp3'';
         url = createObjectURL blob
     in Return (blob, url) s4)))"

text \<open>Lines 160 to 170: the local date and time as one string.\<close>

definition formattedDateTime :: "date \<Rightarrow> string" where
  "formattedDateTime currentDate =
     (let year = getFullYear currentDate;
          month = padStart 2 ''0'' (String_nat (getMonth currentDate + 1));
          day = padStart 2 ''0'' (String_nat (getDate currentDate));
          hours = padStart 2 ''0'' (String_nat (getHours currentDate));
          minutes = padStart 2 ''0'' (String_nat (getMinutes currentDate));
          seconds = padStart 2 ''0'' (String_nat (getSeconds currentDate))
      in String_nat year @ month @ day @ hours @ minutes @ seconds)"

text \<open>Lines 155 to 185: playback, download link, hidden input, timer display.\<close>

definition stop_update_page :: "date \<Rightarrow> url \<Rightarrow> 'e page \<Rightarrow> (string, 'e page) result" where
  "stop_update_page currentDate url s =
     (case audioPlayback_src s of
        None \<Rightarrow> Throw TypeError s
      | Some old_src \<Rightarrow>
     let s1 = s\<lparr>audioPlayback_src := Some url, downloadLink_href := url,
                startBtn_disabled := False, stopBtn_disabled := True\<rparr>;
         fdt = formattedDateTime currentDate;
         s2 = s1\<lparr>downloadLink_download := fdt @ ''.mp3''\<rparr>
     in
     (case local_datetime_value s2 of
        None \<Rightarrow> Throw TypeError s2
      | Some old_value \<Rightarrow>
     let s3 = s2\<lparr>local_datetime_value := Some fdt, downloadLink_display := ''block''\<rparr>;
         s4 = clearInterval (timerInterval s3) s3
     in
     (case timerDisplay s4 of
        None \<Rightarrow> Throw TypeError s4
      | Some text \<Rightarrow> Return fdt (s4\<lparr>timerDisplay := Some (text @ '' (Stopped)'')\<rparr>))))"

text \<open>Lines 188 to 192: the form built by the handler.\<close>

definition stopBtn_formData :: "blob \<Rightarrow> string \<Rightarrow> int \<Rightarrow> form_data" where
  "stopBtn_formData blob fdt tz =
     [(''file'', FileEntry blob (fdt @ ''.mp3'')),
      (''new_file'', TextEntry ''true''),
      (''local_datetime'', TextEntry fdt),
      (''timezone_offset'', TextEntry (String_int tz))]"

text \<open>
  Lines 187 to 198. The constant \<^verbatim>\<open>formData\<close> is local to the handler and is not
  passed on. The name \<^verbatim>\<open>token\<close> is declared neither in the handler nor in the
  enclosing callback, so it is looked up in the global scope when the arguments of the
  call are evaluated.
\<close>

definition stop_submit :: "blob \<Rightarrow> url \<Rightarrow> string \<Rightarrow> 'e page \<Rightarrow> (unit, 'e page) result" where
  "stop_submit blob url fdt s =
     (let formData = stopBtn_formData blob fdt (timezoneOffset s) in
      (case textModal ''Please wait for transcription to complete...'' s of
         Throw e s' \<Rightarrow> Throw e s'
       | Return u s1 \<Rightarrow>
           (case globals s1 ''token'' of
              None \<Rightarrow> Throw (ReferenceError ''token'') s1
            | Some token \<Rightarrow> fetchTranscription url s1)))"

text \<open>
  The value of the handler's constant \<^verbatim>\<open>formData\<close> once line 192 has run (\<open>None\<close> when
  the handler throws before).
\<close>

definition stopBtn_onclick_formData ::
  "'e lamejs \<Rightarrow> date \<Rightarrow> 'e page \<Rightarrow> form_data option" where
  "stopBtn_onclick_formData L currentDate s =
     (case stop_capture L s of
        Throw e s' \<Rightarrow> None
      | Return (blob, url) s1 \<Rightarrow>
          (case stop_update_page currentDate url s1 of
             Throw e s' \<Rightarrow> None
           | Return fdt s2 \<Rightarrow> Some (stopBtn_formData blob fdt (timezoneOffset s2))))"

definition stopBtn_onclick :: "'e lamejs \<Rightarrow> date \<Rightarrow> 'e page \<Rightarrow> (unit, 'e page) result" where
  "stopBtn_onclick L currentDate s =
     (case stop_capture L s of
        Throw e s' \<Rightarrow> Throw e s'
      | Return (blob, url) s1 \<Rightarrow>
          (case stop_update_page currentDate url s1 of
             Throw e s' \<Rightarrow> Throw e s'
           | Return fdt s2 \<Rightarrow> stop_submit blob url fdt s2))"

subsection \<open>The voice instruction: start (lines 203 to 228)\<close>

definition voiceChatStartBtn_onclick :: "nat \<Rightarrow> 'e page \<Rightarrow> (unit, 'e page) result" where
  "voiceChatStartBtn_onclick sampleRate s =
     Return () (s\<lparr>chatAudioContext := Some sampleRate,
                  effects := effects s @ [GetUserMedia VoiceChat],
                  pending := pending s @ [UserMediaPromise VoiceChat]\<rparr>)"

definition voiceChatStartBtn_onclick_resume ::
  "'e lamejs \<Rightarrow> bool \<Rightarrow> 'e page \<Rightarrow> (unit, 'e page) result" where
  "voiceChatStartBtn_onclick_resume L granted s =
     (if \<not> granted then Throw NotAllowedError s
      else
        let s1 = s\<lparr>chatMicStream := Some True\<rparr> in
        (case chatAudioContext s1 of
           None \<Rightarrow> Throw TypeError s1
         | Some sampleRate \<Rightarrow>
             let i = length (chatNodes s1);
                 s2 = s1\<lparr>chatNodes := chatNodes s1 @ [False], chatScriptProcessor := Some i,
                        chatMp3Encoder := Some (Mp3Encoder L 1 sampleRate 128),
                        chatMp3Data := []\<rparr>
             in
             Return ()
               (s2\<lparr>chatNodes := (chatNodes s2)[i := True],
                   voiceChatStartBtn_disabled := True, voiceChatStartBtn_display := ''none'',
                   voiceChatStopBtn_disabled := False,
                   voiceChatStopBtn_display := ''inline-flex''\<rparr>)))"

text \<open>The audio-processing callback of the voice instruction (lines 212 to 218).\<close>

definition chat_onaudioprocess ::
  "'e lamejs \<Rightarrow> number list \<Rightarrow> 'e page \<Rightarrow> (unit, 'e page) result" where
  "chat_onaudioprocess L input s =
     (let int16 = floatTo16BitPCM input in
      (case chatMp3Encoder s of
         None \<Rightarrow> Throw TypeError s
       | Some enc \<Rightarrow>
           let (enc', mp3buf) = encodeBuffer L enc int16;
               s1 = s\<lparr>chatMp3Encoder := Some enc'\<rparr>
           in Return ()
                (if length mp3buf > 0 then s1\<lparr>chatMp3Data := chatMp3Data s1 @ [mp3buf]\<rparr>
                 else s1)))"

subsection \<open>The voice instruction: stop (lines 230 to 277)\<close>

text \<open>Lines 231 to 240.\<close>

definition chat_stop_capture :: "'e lamejs \<Rightarrow> 'e page \<Rightarrow> (blob \<times> url, 'e page) result" where
  "chat_stop_capture L s =
     (case chatScriptProcessor s of
        None \<Rightarrow> Throw TypeError s
      | Some i \<Rightarrow>
     let s1 = s\<lparr>chatNodes := (chatNodes s)[i := False],
                effects := effects s @ [Disconnect VoiceChat i]\<rparr> in
     (case chatMicStream s1 of
        None \<Rightarrow> Throw TypeError s1
      | Some live \<Rightarrow>
     let s2 = s1\<lparr>chatMicStream := Some False, effects := effects s1 @ [StopTracks VoiceChat]\<rparr> in
     (case chatMp3Encoder s2 of
        None \<Rightarrow> Throw TypeError s2
      | Some enc \<Rightarrow>
     let (enc', mp3buf) = flush L enc;
         s3 = s2\<lparr>chatMp3Encoder := Some enc', effects := effects s2 @ [Flush VoiceChat]\<rparr>;
         s4 = (if length mp3buf > 0 then s3\<lparr>chatMp3Data := chatMp3Data s3 @ [mp3buf]\<rparr>
               else s3);
         blob = Blob (chatMp3Data s4) ''audio/mp3'';
         url = createObjectURL blob
     in Return (blob, url) s4)))"

definition voiceChat_formData :: "blob \<Rightarrow> form_data" where
  "voiceChat_formData blob =
     [(''file'', FileEntry blob ''instruction_audio.mp3''),
      (''instruction_audio'', TextEntry ''true'')]"

text \<open>
  Lines 242 to 263: the buttons, the form, the modal and the request. The URL and the
  token are the strings written in the script.
\<close>

definition voiceChatStopBtn_onclick :: "'e lamejs \<Rightarrow> 'e page \<Rightarrow> (unit, 'e page) result" where
  "voiceChatStopBtn_onclick L s =
     (case chat_stop_capture L s of
        Throw e s' \<Rightarrow> Throw e s'
      | Return (blob, url) s1 \<Rightarrow>
          let s2 = s1\<lparr>voiceChatStartBtn_disabled := False,
                     voiceChatStartBtn_display := ''inline-flex'',
                     voiceChatStopBtn_disabled := True,
                     voiceChatStopBtn_display := ''none''\<rparr>;
              formData = voiceChat_formData blob
          in
          (case textModal ''Please wait for voice instruction transcription to complete...'' s2 of
             Throw e s' \<Rightarrow> Throw e s'
           | Return u s3 \<Rightarrow>
               Return ()
                 (s3\<lparr>effects := effects s3 @
                      [Fetch \<lparr>request_url =
                                URLString (''{% url '' @ [CHR 0x27] @ ''transcriber:api_basic_transcribe''
                                           @ [CHR 0x27] @ '' %}''),
                              request_method = ''POST'',
                              request_csrf = Some ''{{ csrf_token }}'',
                              request_body = JFormData formData\<rparr>],
                    pending := pending s3 @ [FetchPromise VoiceChat]\<rparr>)))"

text \<open>The callback on the parsed data (lines 265 to 274).\<close>

definition voiceChat_data :: "response_body \<Rightarrow> 'e page \<Rightarrow> (unit, 'e page) result" where
  "voiceChat_data data s =
     (case edit_chat_input s of
        None \<Rightarrow> Throw TypeError s
      | Some old_value \<Rightarrow>
          (case data of
             NotJSON \<Rightarrow> Throw SyntaxError s
           | JsonNull \<Rightarrow> Throw TypeError s
           | JsonValue None \<Rightarrow> Throw TypeError s
           | JsonValue (Some ctx) \<Rightarrow>
               closeModal
                 (s\<lparr>edit_chat_input :=
                      Some (old_value @ '' '' @ string_of_leaf (ctx_transcript ctx))\<rparr>)))"

text \<open>The promise chain of the voice instruction request once it has settled
  (lines 264 to 276).\<close>

definition voiceChat_settled :: "fetch_outcome \<Rightarrow> 'e page \<Rightarrow> 'e page" where
  "voiceChat_settled outcome s =
     (case outcome of
        Rejected e \<Rightarrow> console_error e s
      | Responded NotJSON \<Rightarrow> console_error SyntaxError s
      | Responded data \<Rightarrow>
          (case voiceChat_data data s of
             Return u s' \<Rightarrow> s'
           | Throw e s' \<Rightarrow> console_error e s'))"

section \<open>The browser: which callbacks it runs\<close>

text \<open>
  The scripts only install callbacks; the browser decides when they run. Its rules, as
  far as the page depends on them:
  \<^item> a disabled button receives no click;
  \<^item> a \<^verbatim>\<open>ScriptProcessorNode\<close> receives \<^verbatim>\<open>audioprocess\<close> events only while it is
    connected, and every node created by a start handler carries that handler's
    callback;
  \<^item> an interval fires only until it is cleared;
  \<^item> the part of a handler after an \<^verbatim>\<open>await\<close>, and the callbacks of a request, run
    once, when the promise they wait for settles;
  \<^item> a callback runs to completion before the next one starts, and an exception that
    leaves a callback ends that callback only.
\<close>

datatype event =
    StartClick nat
  | StartResume bool
  | AudioProcess flow nat "number list"
  | IntervalElapsed nat
  | StopClick date
  | TranscriptionSettled fetch_outcome
  | VoiceChatStartClick nat
  | VoiceChatStartResume bool
  | VoiceChatStopClick
  | VoiceChatSettled fetch_outcome

definition settle :: "promise \<Rightarrow> ('e page \<Rightarrow> 'e page) \<Rightarrow> 'e page \<Rightarrow> 'e page" where
  "settle p callback s =
     (if p \<in> set (pending s) then callback (s\<lparr>pending := remove1 p (pending s)\<rparr>) else s)"

definition dispatch :: "'e lamejs \<Rightarrow> event \<Rightarrow> 'e page \<Rightarrow> 'e page" where
  "dispatch L ev s =
     (case ev of
        StartClick sampleRate \<Rightarrow>
          if startBtn_disabled s then s else state_of (startBtn_onclick sampleRate s)
      | StartResume granted \<Rightarrow>
          settle (UserMediaPromise Primary)
            (\<lambda>s. state_of (startBtn_onclick_resume L granted s)) s
      | AudioProcess Primary i input \<Rightarrow>
          if i < length (nodes s) \<and> nodes s ! i then state_of (onaudioprocess L input s) else s
      | AudioProcess VoiceChat i input \<Rightarrow>
          if i < length (chatNodes s) \<and> chatNodes s ! i
          then state_of (chat_onaudioprocess L input s) else s
      | IntervalElapsed t \<Rightarrow>
          if t < length (timers s) \<and> timers s ! t then state_of (timer_callback s) else s
      | StopClick currentDate \<Rightarrow>
          if stopBtn_disabled s then s else state_of (stopBtn_onclick L currentDate s)
      | TranscriptionSettled outcome \<Rightarrow>
          settle (FetchPromise Primary) (fetchTranscription_settled outcome) s
      | VoiceChatStartClick sampleRate \<Rightarrow>
          if voiceChatStartBtn_disabled s then s
          else state_of (voiceChatStartBtn_onclick sampleRate s)
      | VoiceChatStartResume granted \<Rightarrow>
          settle (UserMediaPromise VoiceChat)
            (\<lambda>s. state_of (voiceChatStartBtn_onclick_resume L granted s)) s
      | VoiceChatStopClick \<Rightarrow>
          if voiceChatStopBtn_disabled s then s else state_of (voiceChatStopBtn_onclick L s)
      | VoiceChatSettled outcome \<Rightarrow>
          settle (FetchPromise VoiceChat) (voiceChat_settled outcome) s)"

fun run :: "'e lamejs \<Rightarrow> event list \<Rightarrow> 'e page \<Rightarrow> 'e page" where
  "run L [] s = s"
| "run L (ev # evs) s = run L evs (dispatch L ev s)"

section \<open>A concrete encoder and a concrete page\<close>

text \<open>
  An encoder to run the handlers on: its state counts the samples taken in, it emits
  one byte for every two samples of a buffer, and two closing bytes on \<open>flush\<close> unless it
  never saw a sample.
\<close>

definition toy_lamejs :: "nat lamejs" where
  "toy_lamejs =
     \<lparr>Mp3Encoder = (\<lambda>channels sampleRate kbps. 0),
      encodeBuffer = (\<lambda>e pcm. (e + length pcm, replicate (length pcm div 2) 85)),
      flush = (\<lambda>e. (0, if e = 0 then [] else [255, 251]))\<rparr>"

text \<open>The names that \<^verbatim>\<open>recorder.js\<close>, \<^verbatim>\<open>modal.js\<close> and \<^verbatim>\<open>time_convert.js\<close> declare
  in the global scope.\<close>

definition script_globals :: "string \<Rightarrow> js_value option" where
  "script_globals =
     map_of
       [(''formatTime'', JFunction ''formatTime''),
        (''getCSRFToken'', JFunction ''getCSRFToken''),
        (''fetchTranscription'', JFunction ''fetchTranscription''),
        (''textModal'', JFunction ''textModal''),
        (''staticModal'', JFunction ''staticModal''),
        (''closeModal'', JFunction ''closeModal''),
        (''convertTimestamps'', JFunction ''convertTimestamps'')]"

text \<open>A document that has every element the scripts look up, before any script ran.\<close>

definition blank_page :: "nat page" where
  "blank_page =
     \<lparr>audioContext = None, micStream = None, scriptProcessor = None, mp3Encoder = None,
      mp3Data = [],
      chatAudioContext = None, chatMicStream = None, chatScriptProcessor = None,
      chatMp3Encoder = None, chatMp3Data = [],
      timerInterval = None, seconds = 0, timezoneOffset = 0,
      nodes = [], chatNodes = [], timers = [], pending = [],
      startBtn_disabled = False, stopBtn_disabled = True,
      audioPlayback_src = Some (URLString []),
      downloadLink_href = URLString [], downloadLink_download = [],
      downloadLink_display = [],
      timerDisplay = Some [],
      timezone_offset_value = [],
      local_datetime_value = Some [],
      voiceChatStartBtn_disabled = False, voiceChatStartBtn_display = ''inline-flex'',
      voiceChatStopBtn_disabled = True, voiceChatStopBtn_display = ''none'',
      no_transcription_message_display = Some ''block'',
      form_container_display = Some ''none'',
      reformat = Some \<lparr>filename_value = Some [], transcript_value = Some []\<rparr>,
      reformat_edited = None,
      buttons = [\<lparr>button_name = ''reformat'', button_form = ''reformat''\<rparr>],
      soap_iframe_body = Some (Some []),
      edit_chat_input = Some [],
      modal = Some \<lparr>modal_display = ''none'', modal_contents = [[]]\<rparr>,
      document_cookie = ''sessionid=k3; csrftoken=abc'',
      globals = script_globals,
      effects = []\<rparr>"

text \<open>The page once loaded in a browser one hour ahead of UTC.\<close>

definition loaded_page :: "nat page" where
  "loaded_page = DOMContentLoaded (- 60) blank_page"

definition example_date :: date where
  "example_date =
     \<lparr>getFullYear = 2024, getMonth = 2, getDate = 5,
      getHours = 7, getMinutes = 8, getSeconds = 9\<rparr>"

definition example_input :: "number list" where
  "example_input = [Finite 0, Finite (1 / 2), Finite (- 1), Finite 1]"

section \<open>Notions used to state the properties\<close>

text \<open>The chunk pushed after a \<open>flush\<close>: its output, unless that is empty.\<close>

definition flush_chunks :: "'e lamejs \<Rightarrow> 'e \<Rightarrow> chunk list" where
  "flush_chunks L enc = (if length (snd (flush L enc)) > 0 then [snd (flush L enc)] else [])"

text \<open>
  What the encoder returns for a sequence of input buffers, fed one after the other
  from the state \<open>enc\<close>, and the encoder after them.
\<close>

fun encoded_chunks :: "'e lamejs \<Rightarrow> 'e \<Rightarrow> number list list \<Rightarrow> chunk list" where
  "encoded_chunks L enc [] = []"
| "encoded_chunks L enc (x # xs) =
     snd (encodeBuffer L enc (floatTo16BitPCM x))
       # encoded_chunks L (fst (encodeBuffer L enc (floatTo16BitPCM x))) xs"

fun encoder_after :: "'e lamejs \<Rightarrow> 'e \<Rightarrow> number list list \<Rightarrow> 'e" where
  "encoder_after L enc [] = enc"
| "encoder_after L enc (x # xs) =
     encoder_after L (fst (encodeBuffer L enc (floatTo16BitPCM x))) xs"

text \<open>The variables and handlers of one flow.\<close>

fun buffer_of :: "flow \<Rightarrow> 'e page \<Rightarrow> chunk list" where
  "buffer_of Primary s = mp3Data s"
| "buffer_of VoiceChat s = chatMp3Data s"

fun nodes_of :: "flow \<Rightarrow> 'e page \<Rightarrow> bool list" where
  "nodes_of Primary s = nodes s"
| "nodes_of VoiceChat s = chatNodes s"

fun processor_of :: "flow \<Rightarrow> 'e page \<Rightarrow> nat option" where
  "processor_of Primary s = scriptProcessor s"
| "processor_of VoiceChat s = chatScriptProcessor s"

fun stream_of :: "flow \<Rightarrow> 'e page \<Rightarrow> bool option" where
  "stream_of Primary s = micStream s"
| "stream_of VoiceChat s = chatMicStream s"

fun encoder_of :: "flow \<Rightarrow> 'e page \<Rightarrow> 'e option" where
  "encoder_of Primary s = mp3Encoder s"
| "encoder_of VoiceChat s = chatMp3Encoder s"

fun stop_click :: "'e lamejs \<Rightarrow> date \<Rightarrow> flow \<Rightarrow> 'e page \<Rightarrow> (unit, 'e page) result" where
  "stop_click L currentDate Primary s = stopBtn_onclick L currentDate s"
| "stop_click L currentDate VoiceChat s = voiceChatStopBtn_onclick L s"

fun capture_of :: "'e lamejs \<Rightarrow> flow \<Rightarrow> 'e page \<Rightarrow> (blob \<times> url, 'e page) result" where
  "capture_of L Primary s = stop_capture L s"
| "capture_of L VoiceChat s = chat_stop_capture L s"

fun is_audio :: "event \<Rightarrow> bool" where
  "is_audio (AudioProcess fl i input) = True"
| "is_audio ev = False"

text \<open>Two start clicks before the microphone permission settles, then both settle;
  one buffer of audio on the second node; stop.\<close>

definition overlapping_starts :: "event list" where
  "overlapping_starts =
     [StartClick 48000, StartClick 48000, StartResume True, StartResume True,
      AudioProcess Primary 1 example_input, StopClick example_date]"

text \<open>One recording up to the stop: start, two buffers of audio and three seconds.\<close>

definition one_recording :: "event list" where
  "one_recording =
     [StartClick 48000, StartResume True,
      AudioProcess Primary 0 example_input, IntervalElapsed 0,
      AudioProcess Primary 0 example_input, IntervalElapsed 0, IntervalElapsed 0]"

definition recorded_page :: "nat page" where
  "recorded_page = run toy_lamejs one_recording loaded_page"

text \<open>A recording up to the stop: the start click, the permission granted, and the
  audio buffers delivered to the node \<open>i\<close> of the session.\<close>

definition recording :: "nat \<Rightarrow> nat \<Rightarrow> number list list \<Rightarrow> event list" where
  "recording rate i inputs =
     StartClick rate # StartResume True # map (AudioProcess Primary i) inputs"

text \<open>An exchange fails when \<^verbatim>\<open>fetch\<close> rejects or the body of the response is not JSON;
  \<open>failure_of\<close> is the error that reaches the \<^verbatim>\<open>catch\<close> callback then.\<close>

fun fetch_failed :: "fetch_outcome \<Rightarrow> bool" where
  "fetch_failed (Rejected e) = True"
| "fetch_failed (Responded NotJSON) = True"
| "fetch_failed (Responded data) = False"

fun failure_of :: "fetch_outcome \<Rightarrow> js_error" where
  "failure_of (Rejected e) = e"
| "failure_of (Responded data) = SyntaxError"

text \<open>A voice instruction up to the stop, and the page after the stop click.\<close>

definition chat_recorded_page :: "nat page" where
  "chat_recorded_page =
     run toy_lamejs
       [VoiceChatStartClick 48000, VoiceChatStartResume True,
        AudioProcess VoiceChat 0 example_input] loaded_page"

definition chat_stopped_page :: "nat page" where
  "chat_stopped_page = state_of (voiceChatStopBtn_onclick toy_lamejs chat_recorded_page)"

definition waiting_page :: "nat page" where
  "waiting_page = state_of (textModal ''Please wait for transcription to complete...'' loaded_page)"

definition example_answer :: fetch_outcome where
  "example_answer =
     Responded (JsonValue (Some
       \<lparr>ctx_transcription =
          Some \<lparr>tr_filename = Some ''20240305070809.mp3'', tr_transcript = Some ''cough'',
                tr_formatted_text = Some ''<p>S: cough</p>''\<rparr>,
        ctx_transcript = Some ''shorter''\<rparr>))"

text \<open>A page without a CSRF cookie on which another script has bound \<^verbatim>\<open>formData\<close>.\<close>

definition no_csrf_page :: "nat page" where
  "no_csrf_page =
     blank_page\<lparr>document_cookie := ''sessionid=k3; theme=dark'',
                 globals := script_globals(''formData'' \<mapsto> JFormData [])\<rparr>"

text \<open>\<open>extends xs ys\<close>: the list \<open>ys\<close> is \<open>xs\<close> with elements appended, if any.\<close>

definition extends :: "'a list \<Rightarrow> 'a list \<Rightarrow> bool" where
  "extends xs ys = (take (length xs) ys = xs)"

definition same_buffers :: "'e page \<Rightarrow> 'e page \<Rightarrow> bool" where
  "same_buffers s s' = (mp3Data s' = mp3Data s \<and> chatMp3Data s' = chatMp3Data s)"

text \<open>The events that begin a new session of a flow: the second half of its start
  handler, which assigns a fresh array to the buffer.\<close>

fun restarts :: "flow \<Rightarrow> event \<Rightarrow> bool" where
  "restarts Primary (StartResume granted) = True"
| "restarts VoiceChat (VoiceChatStartResume granted) = True"
| "restarts fl ev = False"

text \<open>A start followed by \<open>n\<close> firings of the interval \<open>t\<close>.\<close>

definition timed_recording :: "nat \<Rightarrow> nat \<Rightarrow> nat \<Rightarrow> event list" where
  "timed_recording rate t n =
     StartClick rate # StartResume True # replicate n (IntervalElapsed t)"

section \<open>Properties of the pure helpers\<close>

subsection \<open>Decimal strings and padding\<close>

lemma String_nat_one_digit: "n < 10 \<Longrightarrow> String_nat n = [digit_char n]"
  by (subst String_nat.simps) simp

lemma String_nat_two_digits:
  assumes "10 \<le> n" and "n < 100"
  shows "String_nat n = [digit_char (n div 10), digit_char (n mod 10)]"
proof -
  from assms have "n div 10 < 10" by simp
  then have "String_nat (n div 10) = [digit_char (n div 10)]"
    by (rule String_nat_one_digit)
  with assms show ?thesis
    by (subst String_nat.simps) simp
qed

lemma String_nat_not_empty: "String_nat n \<noteq> []"
  by (subst String_nat.simps) simp

lemma String_nat_three_digits:
  assumes "100 \<le> n"
  shows "3 \<le> length (String_nat n)"
proof -
  have a: "String_nat n = String_nat (n div 10) @ [digit_char (n mod 10)]"
    using assms by (subst String_nat.simps) simp
  from assms have "\<not> n div 10 < 10" by simp
  then have b: "String_nat (n div 10) =
      String_nat (n div 10 div 10) @ [digit_char (n div 10 mod 10)]"
    by (subst String_nat.simps) (simp only: if_False)
  have "1 \<le> length (String_nat (n div 10 div 10))"
    using String_nat_not_empty [of "n div 10 div 10"]
    by (cases "String_nat (n div 10 div 10)") simp_all
  then show ?thesis by (simp add: a b)
qed

lemma padStart_two_digits:
  assumes "n < 100"
  shows "padStart 2 ''0'' (String_nat n) = [digit_char (n div 10), digit_char (n mod 10)]"
proof (cases "n < 10")
  case True
  then show ?thesis by (simp add: padStart_def String_nat_one_digit digit_char_def)
next
  case False
  with assms show ?thesis by (simp add: padStart_def String_nat_two_digits)
qed

lemma padStart_wide: "100 \<le> n \<Longrightarrow> padStart 2 ''0'' (String_nat n) = String_nat n"
  using String_nat_three_digits [of n] by (simp add: padStart_def)

lemma digit_char_is_digit: "d < 10 \<Longrightarrow> digit_char d \<in> set ''0123456789''"
  unfolding digit_char_def by (rule nth_mem) simp

subsection \<open>The elapsed-time display\<close>

lemma formatTime_long:
  assumes "6000 \<le> sec"
  shows "6 \<le> length (formatTime sec)"
proof -
  from assms have m: "100 \<le> sec div 60" by simp
  have s: "sec mod 60 < 100" by (rule less_trans [OF mod_less_divisor]) simp_all
  show ?thesis
    using String_nat_three_digits [OF m]
    by (simp add: formatTime_def Let_def padStart_wide [OF m] padStart_two_digits [OF s])
qed

text \<open>Below one hundred minutes the result is exactly \<open>mm:ss\<close>.\<close>

lemma formatTime_below_6000:
  assumes "sec < 6000"
  shows "formatTime sec =
     [digit_char (sec div 600), digit_char (sec div 60 mod 10), CHR '':'',
      digit_char (sec mod 60 div 10), digit_char (sec mod 10)]"
proof -
  from assms have m: "sec div 60 < 100" by simp
  have s: "sec mod 60 < 100" by (rule less_trans [OF mod_less_divisor]) simp_all
  have d: "sec div 60 div 10 = sec div 600" by (simp add: div_mult2_eq)
  have e: "sec mod 60 mod 10 = sec mod 10" by (simp add: mod_mod_cancel)
  show ?thesis
    by (simp add: formatTime_def Let_def padStart_two_digits [OF m] padStart_two_digits [OF s] d e)
qed

text \<open>
  From one hundred minutes on the minutes field is the whole decimal numeral of the minute
  count, three digits or more, and the seconds field still has exactly two.
\<close>

lemma formatTime_from_6000:
  assumes "6000 \<le> sec"
  shows "formatTime sec =
     String_nat (sec div 60) @
     [CHR '':'', digit_char (sec mod 60 div 10), digit_char (sec mod 10)]"
    and "3 \<le> length (String_nat (sec div 60))"
proof -
  from assms have m: "100 \<le> sec div 60" by simp
  have s: "sec mod 60 < 100" by (rule less_trans [OF mod_less_divisor]) simp_all
  have e: "sec mod 60 mod 10 = sec mod 10" by (simp add: mod_mod_cancel)
  show "formatTime sec =
     String_nat (sec div 60) @
     [CHR '':'', digit_char (sec mod 60 div 10), digit_char (sec mod 10)]"
    by (simp add: formatTime_def Let_def padStart_wide [OF m] padStart_two_digits [OF s] e)
  show "3 \<le> length (String_nat (sec div 60))"
    by (rule String_nat_three_digits [OF m])
qed

lemma formatTime_examples: "formatTime 0 = ''00:00''" "formatTime 6000 = ''100:00''"
  by (simp_all add: formatTime_def padStart_def String_nat.simps digit_char_def)

subsection \<open>The CSRF token read from the cookie string\<close>

lemma split_js_not_empty: "split_js sep s \<noteq> []"
  by (induction sep s rule: split_js.induct) (auto split: list.splits)

lemma split_js_csrftoken:
  "split_js ''='' (''csrftoken='' @ rest) = ''csrftoken'' # split_js ''='' rest"
  by (simp add: startsWith_def)

text \<open>When a row does match, the result is a string: the text after the first \<open>=\<close>
  of that row, up to the next \<open>=\<close>.\<close>

lemma getCSRFToken_found:
  assumes "find (\<lambda>row. startsWith row ''csrftoken='') (split_js ''; '' cookie) = Some row"
  shows "getCSRFToken cookie = Inr (Some (hd (split_js ''='' (drop 10 row))))"
proof -
  from assms have "startsWith row ''csrftoken=''" by (auto simp: find_Some_iff)
  moreover have "length ''csrftoken='' = 10" by simp
  ultimately have "take 10 row = ''csrftoken=''" unfolding startsWith_def by (simp only:)
  then have "row = ''csrftoken='' @ drop 10 row"
    using append_take_drop_id [of 10 row] by simp
  then have "split_js ''='' row = ''csrftoken'' # split_js ''='' (drop 10 row)"
    using split_js_csrftoken [of "drop 10 row"] by simp
  then show ?thesis
    using assms split_js_not_empty [of "''=''" "drop 10 row"]
    by (cases "split_js ''='' (drop 10 row)")
      (simp_all add: getCSRFToken_def optional_split_index_def member_split_def index_js_def)
qed

lemma getCSRFToken_example:
  "getCSRFToken ''sessionid=k3; csrftoken=abc'' = Inr (Some ''abc'')"
  by (simp add: getCSRFToken_def optional_split_index_def member_split_def index_js_def
      startsWith_def)

subsection \<open>The PCM conversion\<close>

lemma sint_int16:
  "- 32768 \<le> k \<Longrightarrow> k \<le> 32767 \<Longrightarrow> sint (word_of_int k :: 16 word) = k"
  by (simp add: sint_sbintrunc' signed_take_bit_int_eq_self)

lemma floatTo16BitPCM_sample_NaN: "floatTo16BitPCM_sample NaN = 0"
  by (simp add: floatTo16BitPCM_sample_def Math_max_def Math_min_def)

lemma floatTo16BitPCM_sample_Infinity: "sint (floatTo16BitPCM_sample Infinity) = 32767"
  by (simp add: floatTo16BitPCM_sample_def Math_max_def Math_min_def truncate_rat_def)

lemma floatTo16BitPCM_sample_NegInfinity:
  "sint (floatTo16BitPCM_sample NegInfinity) = - 32768"
  by (simp add: floatTo16BitPCM_sample_def Math_max_def Math_min_def truncate_rat_def)

lemma clamp_Finite:
  "Math_max (Finite (- 1)) (Math_min (Finite 1) (Finite r)) = Finite (max (- 1) (min 1 r))"
  by (simp add: Math_max_def Math_min_def max_def min_def)

lemma floatTo16BitPCM_sample_low:
  assumes "r \<le> - 1"
  shows "sint (floatTo16BitPCM_sample (Finite r)) = - 32768"
  using assms
  by (simp add: floatTo16BitPCM_sample_def clamp_Finite truncate_rat_def max_def min_def)

lemma floatTo16BitPCM_sample_high:
  assumes "1 \<le> r"
  shows "sint (floatTo16BitPCM_sample (Finite r)) = 32767"
  using assms
  by (simp add: floatTo16BitPCM_sample_def clamp_Finite truncate_rat_def max_def min_def)

lemma floatTo16BitPCM_sample_negative:
  assumes "- 1 < r" and "r < 0"
  shows "sint (floatTo16BitPCM_sample (Finite r)) = - \<lfloor>- r * 32768\<rfloor>"
proof -
  have s: "floatTo16BitPCM_sample (Finite r) = word_of_int (- \<lfloor>- r * 32768\<rfloor>)"
    using assms
    by (simp add: floatTo16BitPCM_sample_def clamp_Finite truncate_rat_def max_def min_def
        mult_less_0_iff)
  from assms have "0 \<le> - r * 32768" and "- r * 32768 \<le> 32768" by simp_all
  then have "0 \<le> \<lfloor>- r * 32768\<rfloor>" and "\<lfloor>- r * 32768\<rfloor> \<le> 32768"
    by (simp_all add: floor_le_iff le_floor_iff)
  then show ?thesis unfolding s by (intro sint_int16) linarith+
qed

lemma floatTo16BitPCM_sample_nonnegative:
  assumes "0 \<le> r" and "r \<le> 1"
  shows "sint (floatTo16BitPCM_sample (Finite r)) = \<lfloor>r * 32767\<rfloor>"
proof -
  have s: "floatTo16BitPCM_sample (Finite r) = word_of_int \<lfloor>r * 32767\<rfloor>"
    using assms
    by (simp add: floatTo16BitPCM_sample_def clamp_Finite truncate_rat_def max_def min_def
        mult_less_0_iff)
  from assms have "0 \<le> r * 32767" and "r * 32767 \<le> 32767" by simp_all
  then have "0 \<le> \<lfloor>r * 32767\<rfloor>" and "\<lfloor>r * 32767\<rfloor> \<le> 32767"
    by (simp_all add: floor_le_iff le_floor_iff)
  then show ?thesis unfolding s by (intro sint_int16) linarith+
qed

lemma floatTo16BitPCM_sample_value:
  "sint (floatTo16BitPCM_sample x) =
     (case x of
        NaN \<Rightarrow> 0
      | NegInfinity \<Rightarrow> - 32768
      | Finite r \<Rightarrow>
          if r \<le> - 1 then - 32768
          else if r < 0 then - \<lfloor>- r * 32768\<rfloor>
          else if r \<le> 1 then \<lfloor>r * 32767\<rfloor>
          else 32767
      | Infinity \<Rightarrow> 32767)"
proof (cases x)
  case (Finite r)
  then show ?thesis
    using floatTo16BitPCM_sample_low [of r] floatTo16BitPCM_sample_high [of r]
      floatTo16BitPCM_sample_negative [of r] floatTo16BitPCM_sample_nonnegative [of r]
    by simp
qed (simp_all add: floatTo16BitPCM_sample_NaN floatTo16BitPCM_sample_Infinity
    floatTo16BitPCM_sample_NegInfinity)

text \<open>
  The model multiplies exactly. That is what the double-precision product does here: a
  32-bit float times \<^verbatim>\<open>0x8000\<close> or \<^verbatim>\<open>0x7FFF\<close> has a significand of fewer than 53 bits
  and an exponent in range, so it is itself a double and no rounding takes place.
\<close>

lemma binary32_times_scale_exact:
  assumes "binary32 r"
  shows "binary64 (r * 32768) \<and> binary64 (r * 32767)"
proof -
  from assms obtain m e where m: "\<bar>m\<bar> < 2 ^ 24" and e: "- 149 \<le> e" "e \<le> 104"
    and r: "r = of_int m * 2 powi e"
    unfolding binary_value_def by blast
  have "\<bar>m * k\<bar> < 2 ^ 53" if "k = 32768 \<or> k = 32767" for k :: int
    using m that by (auto simp: abs_mult)
  moreover have "r * of_int k = of_int (m * k) * 2 powi e" for k :: int
    by (simp add: r)
  ultimately have "binary64 (r * of_int k)" if "k = 32768 \<or> k = 32767" for k :: int
    unfolding binary_value_def using e that
    by (intro exI [of _ "m * k"] exI [of _ e]) auto
  from this [of 32768] this [of 32767] show ?thesis by simp
qed

text \<open>
  Claim C4. Every sample is clamped to \<open>[-1, 1]\<close> and then scaled, a negative one by
  32768 and a non-negative one by 32767, so that \<open>-1\<close> (and everything below) becomes
  \<open>-32768\<close> and \<open>1\<close> (and everything above) becomes \<open>32767\<close>, never \<open>32768\<close>; the
  16-bit store drops the fraction towards zero and never wraps around. (\<^verbatim>\<open>NaN\<close>, which
  is neither negative nor non-negative, is stored as 0.) The output array has one
  element per input sample.
\<close>

theorem floatTo16BitPCM_clamps_and_scales:
  "map sint (floatTo16BitPCM input) =
     map (\<lambda>x. case x of
                 NaN \<Rightarrow> 0
               | NegInfinity \<Rightarrow> - 32768
               | Finite r \<Rightarrow>
                   if r \<le> - 1 then - 32768
                   else if r < 0 then - \<lfloor>- r * 32768\<rfloor>
                   else if r \<le> 1 then \<lfloor>r * 32767\<rfloor>
                   else 32767
               | Infinity \<Rightarrow> 32767) input"
  by (simp add: floatTo16BitPCM_def floatTo16BitPCM_sample_value)

lemma floor_rat_numeral_quotient:
  "\<lfloor>(numeral a :: rat) / numeral b\<rfloor> = numeral a div numeral b"
  using floor_divide_of_int_eq [of "numeral a" "numeral b", where ?'a = rat] by simp

lemma floatTo16BitPCM_example:
  "map sint (floatTo16BitPCM [Finite (- 1), Finite (- 1 / 2), Finite 0, Finite (1 / 2), Finite 1,
      Finite 2, NaN]) = [- 32768, - 16384, 0, 16383, 32767, 32767, 0]"
  by (simp add: floatTo16BitPCM_def floatTo16BitPCM_sample_value floor_rat_numeral_quotient)

section \<open>The modal\<close>

lemma closeModal_Return:
  assumes "modal s = Some m"
  shows "closeModal s = Return () (s\<lparr>modal := Some (m\<lparr>modal_display := ''none''\<rparr>)\<rparr>)"
  using assms by (simp add: closeModal_def)

lemma textModal_Return:
  assumes "modal s = Some m" and "modal_contents m = c # cs"
  shows "textModal content s =
     Return ()
       (s\<lparr>modal := Some (m\<lparr>modal_display := ''block'', modal_contents := content # cs\<rparr>),
          globals := (globals s)(''container'' \<mapsto> JElement ''modal-content'')\<rparr>)"
  using assms by (simp add: textModal_def)

lemma textModal_shows:
  assumes "textModal content s = Return u s'"
  shows "modal_shown s'"
  using assms by (auto simp: textModal_def modal_shown_def split: option.splits list.splits)

text \<open>
  Claim C8. In a document that has the modal element with its content element,
  \<open>textModal x\<close> followed by \<open>closeModal\<close> runs without an exception and leaves the modal
  hidden. \<open>closeModal\<close> is idempotent: it never throws there, a second \<open>closeModal\<close>
  returns the state the first one left, and on a state in which the modal is already
  hidden it returns that very state.
\<close>

theorem modal_text_then_close:
  assumes "modal s = Some m" and "modal_contents m \<noteq> []"
  shows "(case textModal x s of
            Throw e s' \<Rightarrow> False
          | Return u s1 \<Rightarrow>
              (case closeModal s1 of
                 Throw e s' \<Rightarrow> False
               | Return u s2 \<Rightarrow> modal_hidden s2 \<and> closeModal s2 = Return () s2))
         \<and> (case closeModal s of
                Throw e s' \<Rightarrow> False
              | Return u s1 \<Rightarrow> modal_hidden s1 \<and> closeModal s1 = Return () s1)
         \<and> (modal_hidden s \<longrightarrow> closeModal s = Return () s)"
proof -
  from assms obtain c cs where "modal_contents m = c # cs"
    by (cases "modal_contents m") auto
  with assms(1) show ?thesis
    by (simp add: textModal_def closeModal_def modal_hidden_def)
qed

theorem modal_text_then_close_witness:
  "modal_hidden blank_page \<and>
   closeModal blank_page = Return () blank_page \<and>
   (case textModal ''x'' blank_page of
      Throw e s' \<Rightarrow> False
    | Return u s1 \<Rightarrow>
        (case closeModal s1 of
           Throw e s' \<Rightarrow> False
         | Return u s2 \<Rightarrow> modal_hidden s2 \<and> closeModal s2 = Return () s2))"
proof -
  have m: "modal blank_page = Some \<lparr>modal_display = ''none'', modal_contents = [[]]\<rparr>"
    by (simp add: blank_page_def)
  have h: "modal_hidden blank_page"
    by (simp add: modal_hidden_def m)
  from modal_text_then_close [OF m, of "''x''"] h show ?thesis
    by simp
qed

section \<open>The capture session\<close>

subsection \<open>Lists of chunks\<close>

lemma concat_flush_chunks: "concat (flush_chunks L enc) = snd (flush L enc)"
  by (simp add: flush_chunks_def)

lemma length_concat_sum: "length (concat xss) = sum_list (map length xss)"
  by (induction xss) simp_all

lemma run_append: "run L (evs @ evs') s = run L evs' (run L evs s)"
  by (induction evs arbitrary: s) simp_all

subsection \<open>The audio-processing callbacks\<close>

lemma onaudioprocess_Return:
  assumes "mp3Encoder s = Some enc"
  shows "onaudioprocess L input s =
     Return ()
       (s\<lparr>mp3Encoder := Some (fst (encodeBuffer L enc (floatTo16BitPCM input))),
          mp3Data := mp3Data s @
            filter (\<lambda>c. c \<noteq> []) [snd (encodeBuffer L enc (floatTo16BitPCM input))]\<rparr>)"
  using assms by (simp add: onaudioprocess_def Let_def split: prod.splits)

lemma chat_onaudioprocess_Return:
  assumes "chatMp3Encoder s = Some enc"
  shows "chat_onaudioprocess L input s =
     Return ()
       (s\<lparr>chatMp3Encoder := Some (fst (encodeBuffer L enc (floatTo16BitPCM input))),
          chatMp3Data := chatMp3Data s @
            filter (\<lambda>c. c \<noteq> []) [snd (encodeBuffer L enc (floatTo16BitPCM input))]\<rparr>)"
  using assms by (simp add: chat_onaudioprocess_def Let_def split: prod.splits)

lemma onaudioprocess_frame:
  "nodes (state_of (onaudioprocess L input s)) = nodes s \<and>
   chatNodes (state_of (onaudioprocess L input s)) = chatNodes s \<and>
   chatMp3Data (state_of (onaudioprocess L input s)) = chatMp3Data s"
  by (cases "mp3Encoder s") (simp_all add: onaudioprocess_Return, simp add: onaudioprocess_def)

lemma chat_onaudioprocess_frame:
  "nodes (state_of (chat_onaudioprocess L input s)) = nodes s \<and>
   chatNodes (state_of (chat_onaudioprocess L input s)) = chatNodes s \<and>
   mp3Data (state_of (chat_onaudioprocess L input s)) = mp3Data s"
  by (cases "chatMp3Encoder s")
    (simp_all add: chat_onaudioprocess_Return, simp add: chat_onaudioprocess_def)

lemma onaudioprocess_appends:
  "\<exists>cs. mp3Data (state_of (onaudioprocess L input s)) = mp3Data s @ cs"
  by (cases "mp3Encoder s") (simp_all add: onaudioprocess_Return, simp add: onaudioprocess_def)

lemma chat_onaudioprocess_appends:
  "\<exists>cs. chatMp3Data (state_of (chat_onaudioprocess L input s)) = chatMp3Data s @ cs"
  by (cases "chatMp3Encoder s")
    (simp_all add: chat_onaudioprocess_Return, simp add: chat_onaudioprocess_def)

text \<open>Audio events never change which nodes are connected.\<close>

lemma dispatch_audio_nodes:
  "nodes_of fl (dispatch L (AudioProcess fl' i input) s) = nodes_of fl s"
  by (cases fl; cases fl')
    (simp_all add: dispatch_def onaudioprocess_frame chat_onaudioprocess_frame)

text \<open>An audio event only appends to the buffer of a flow.\<close>

lemma dispatch_audio_appends:
  "\<exists>cs. buffer_of fl (dispatch L (AudioProcess fl' i input) s) = buffer_of fl s @ cs"
  by (cases fl; cases fl')
    (simp_all add: dispatch_def onaudioprocess_frame chat_onaudioprocess_frame
      onaudioprocess_appends chat_onaudioprocess_appends)

lemma connected_node_mem:
  assumes "i < length ns" and "ns ! i"
  shows "True \<in> set ns"
proof -
  from assms(1) have "ns ! i \<in> set ns" by (rule nth_mem)
  moreover from assms(2) have "ns ! i = True" by (rule eqTrueI)
  ultimately show ?thesis by (simp only:)
qed

text \<open>While no node of a flow is connected, audio events leave its buffer alone.\<close>

lemma dispatch_audio_disconnected:
  assumes "True \<notin> set (nodes_of fl s)"
  shows "buffer_of fl (dispatch L (AudioProcess fl' i input) s) = buffer_of fl s"
proof -
  have "\<not> (i < length (nodes_of fl s) \<and> nodes_of fl s ! i)"
    using assms connected_node_mem [of i "nodes_of fl s"] by blast
  then show ?thesis
    by (cases fl; cases fl')
      (auto simp add: dispatch_def onaudioprocess_frame chat_onaudioprocess_frame)
qed

lemma run_audio_disconnected:
  assumes "True \<notin> set (nodes_of fl s)" and "list_all is_audio evs"
  shows "buffer_of fl (run L evs s) = buffer_of fl s"
  using assms
proof (induction evs arbitrary: s)
  case Nil
  then show ?case by simp
next
  case (Cons ev evs)
  from Cons.prems(2) obtain fl' i input where ev: "ev = AudioProcess fl' i input"
    by (cases ev) simp_all
  have "True \<notin> set (nodes_of fl (dispatch L ev s))"
    using Cons.prems(1) by (simp add: ev dispatch_audio_nodes)
  moreover have "list_all is_audio evs"
    using Cons.prems(2) by simp
  ultimately have "buffer_of fl (run L evs (dispatch L ev s)) = buffer_of fl (dispatch L ev s)"
    by (rule Cons.IH)
  then show ?case
    using Cons.prems(1) by (simp add: ev dispatch_audio_disconnected)
qed

text \<open>The callbacks of one connected node, one after the other.\<close>

lemma run_audio_on_node:
  assumes "i < length (nodes s)" and "nodes s ! i" and "mp3Encoder s = Some enc"
  shows "run L (map (AudioProcess Primary i) inputs) s =
     s\<lparr>mp3Encoder := Some (encoder_after L enc inputs),
       mp3Data := mp3Data s @ filter (\<lambda>c. c \<noteq> []) (encoded_chunks L enc inputs)\<rparr>"
  using assms
proof (induction inputs arbitrary: s enc)
  case Nil
  then show ?case by simp
next
  case (Cons x xs)
  let ?enc = "fst (encodeBuffer L enc (floatTo16BitPCM x))"
  let ?s = "s\<lparr>mp3Encoder := Some ?enc,
          mp3Data := mp3Data s @
            filter (\<lambda>c. c \<noteq> []) [snd (encodeBuffer L enc (floatTo16BitPCM x))]\<rparr>"
  have d: "dispatch L (AudioProcess Primary i x) s = ?s"
    using Cons.prems by (simp add: dispatch_def onaudioprocess_Return)
  have "run L (map (AudioProcess Primary i) xs) ?s =
     ?s\<lparr>mp3Encoder := Some (encoder_after L ?enc xs),
       mp3Data := mp3Data ?s @ filter (\<lambda>c. c \<noteq> []) (encoded_chunks L ?enc xs)\<rparr>"
    using Cons.prems by (intro Cons.IH) simp_all
  then show ?case by (simp add: d)
qed

subsection \<open>Start\<close>

lemma start_session:
  assumes "\<not> startBtn_disabled s" and "timerDisplay s = Some shown"
  shows "dispatch L (StartResume True) (dispatch L (StartClick rate) s) =
     s\<lparr>audioContext := Some rate,
       micStream := Some True,
       scriptProcessor := Some (length (nodes s)),
       mp3Encoder := Some (Mp3Encoder L 1 rate 128),
       mp3Data := [],
       nodes := nodes s @ [True],
       startBtn_disabled := True,
       stopBtn_disabled := False,
       seconds := 0,
       timerDisplay := Some ''Recording: 00:00'',
       timers := timers s @ [True],
       timerInterval := Some (length (timers s)),
       pending := remove1 (UserMediaPromise Primary) (pending s @ [UserMediaPromise Primary]),
       effects := effects s @ [GetUserMedia Primary, SetInterval (length (timers s))]\<rparr>"
  using assms
  by (simp add: dispatch_def settle_def startBtn_onclick_def startBtn_onclick_resume_def Let_def)

subsection \<open>Stop: the capture part\<close>

lemma stop_capture_Return:
  assumes "scriptProcessor s = Some i" and "micStream s = Some live" and "mp3Encoder s = Some enc"
  shows "stop_capture L s =
     Return (Blob (mp3Data s @ flush_chunks L enc) ''audio/mp3'',
             ObjectURL (Blob (mp3Data s @ flush_chunks L enc) ''audio/mp3''))
       (s\<lparr>nodes := (nodes s)[i := False],
          micStream := Some False,
          mp3Encoder := Some (fst (flush L enc)),
          mp3Data := mp3Data s @ flush_chunks L enc,
          effects := effects s @ [Disconnect Primary i, StopTracks Primary, Flush Primary]\<rparr>)"
  using assms
  by (simp add: stop_capture_def flush_chunks_def createObjectURL_def Let_def split: prod.splits)

lemma chat_stop_capture_Return:
  assumes "chatScriptProcessor s = Some i" and "chatMicStream s = Some live"
    and "chatMp3Encoder s = Some enc"
  shows "chat_stop_capture L s =
     Return (Blob (chatMp3Data s @ flush_chunks L enc) ''audio/mp3'',
             ObjectURL (Blob (chatMp3Data s @ flush_chunks L enc) ''audio/mp3''))
       (s\<lparr>chatNodes := (chatNodes s)[i := False],
          chatMicStream := Some False,
          chatMp3Encoder := Some (fst (flush L enc)),
          chatMp3Data := chatMp3Data s @ flush_chunks L enc,
          effects := effects s @ [Disconnect VoiceChat i, StopTracks VoiceChat, Flush VoiceChat]\<rparr>)"
  using assms
  by (simp add: chat_stop_capture_def flush_chunks_def createObjectURL_def Let_def
      split: prod.splits)

subsection \<open>Stop: what the later parts of the handlers leave alone\<close>

lemma textModal_frame:
  "mp3Data (state_of (textModal c s)) = mp3Data s \<and>
   chatMp3Data (state_of (textModal c s)) = chatMp3Data s \<and>
   nodes (state_of (textModal c s)) = nodes s \<and>
   chatNodes (state_of (textModal c s)) = chatNodes s \<and>
   effects (state_of (textModal c s)) = effects s \<and>
   pending (state_of (textModal c s)) = pending s \<and>
   audioPlayback_src (state_of (textModal c s)) = audioPlayback_src s \<and>
   downloadLink_href (state_of (textModal c s)) = downloadLink_href s \<and>
   downloadLink_download (state_of (textModal c s)) = downloadLink_download s \<and>
   local_datetime_value (state_of (textModal c s)) = local_datetime_value s \<and>
   timerDisplay (state_of (textModal c s)) = timerDisplay s \<and>
   document_cookie (state_of (textModal c s)) = document_cookie s"
  by (simp add: textModal_def split: option.splits list.splits)

lemma fetchTranscription_frame:
  "mp3Data (state_of (fetchTranscription u s)) = mp3Data s \<and>
   nodes (state_of (fetchTranscription u s)) = nodes s \<and>
   modal (state_of (fetchTranscription u s)) = modal s \<and>
   audioPlayback_src (state_of (fetchTranscription u s)) = audioPlayback_src s \<and>
   downloadLink_href (state_of (fetchTranscription u s)) = downloadLink_href s \<and>
   downloadLink_download (state_of (fetchTranscription u s)) = downloadLink_download s \<and>
   local_datetime_value (state_of (fetchTranscription u s)) = local_datetime_value s \<and>
   timerDisplay (state_of (fetchTranscription u s)) = timerDisplay s \<and>
   (\<exists>rest. effects (state_of (fetchTranscription u s)) = effects s @ rest)"
  by (simp add: fetchTranscription_def split: option.splits sum.splits)

lemma stop_update_page_frame:
  "mp3Data (state_of (stop_update_page d u s)) = mp3Data s \<and>
   nodes (state_of (stop_update_page d u s)) = nodes s \<and>
   modal (state_of (stop_update_page d u s)) = modal s \<and>
   globals (state_of (stop_update_page d u s)) = globals s \<and>
   document_cookie (state_of (stop_update_page d u s)) = document_cookie s \<and>
   timezoneOffset (state_of (stop_update_page d u s)) = timezoneOffset s \<and>
   pending (state_of (stop_update_page d u s)) = pending s \<and>
   (\<exists>rest. effects (state_of (stop_update_page d u s)) = effects s @ rest)"
  by (simp add: stop_update_page_def clearInterval_def Let_def split: option.splits)

lemma stop_submit_frame:
  "mp3Data (state_of (stop_submit b u f s)) = mp3Data s \<and>
   nodes (state_of (stop_submit b u f s)) = nodes s \<and>
   audioPlayback_src (state_of (stop_submit b u f s)) = audioPlayback_src s \<and>
   downloadLink_href (state_of (stop_submit b u f s)) = downloadLink_href s \<and>
   downloadLink_download (state_of (stop_submit b u f s)) = downloadLink_download s \<and>
   local_datetime_value (state_of (stop_submit b u f s)) = local_datetime_value s \<and>
   timerDisplay (state_of (stop_submit b u f s)) = timerDisplay s \<and>
   (\<exists>rest. effects (state_of (stop_submit b u f s)) = effects s @ rest)"
proof (cases "textModal ''Please wait for transcription to complete...'' s")
  case (Throw e s')
  with textModal_frame [of "''Please wait for transcription to complete...''" s]
  show ?thesis by (simp add: stop_submit_def)
next
  case (Return v s1)
  with textModal_frame [of "''Please wait for transcription to complete...''" s]
  have eq: "mp3Data s1 = mp3Data s" "nodes s1 = nodes s" "effects s1 = effects s"
    "audioPlayback_src s1 = audioPlayback_src s" "downloadLink_href s1 = downloadLink_href s"
    "downloadLink_download s1 = downloadLink_download s"
    "local_datetime_value s1 = local_datetime_value s" "timerDisplay s1 = timerDisplay s"
    by simp_all
  show ?thesis
  proof (cases "globals s1 ''token''")
    case None
    with Return eq show ?thesis by (simp add: stop_submit_def)
  next
    case (Some token)
    with Return eq fetchTranscription_frame [of u s1] show ?thesis
      by (simp add: stop_submit_def)
  qed
qed

subsection \<open>Stop: the whole handler\<close>

lemma stop_update_page_artifact:
  assumes "audioPlayback_src s = Some v"
  shows "audioPlayback_src (state_of (stop_update_page d u s)) = Some u \<and>
         downloadLink_href (state_of (stop_update_page d u s)) = u \<and>
         downloadLink_download (state_of (stop_update_page d u s)) = formattedDateTime d @ ''.mp3''"
  using assms
  by (simp add: stop_update_page_def clearInterval_def Let_def split: option.splits)

lemma stop_update_page_Return:
  assumes "audioPlayback_src s = Some v" and "local_datetime_value s = Some w"
    and "timerDisplay s = Some shown"
  shows "stop_update_page d u s =
     Return (formattedDateTime d)
       (s\<lparr>audioPlayback_src := Some u, downloadLink_href := u,
          startBtn_disabled := False, stopBtn_disabled := True,
          downloadLink_download := formattedDateTime d @ ''.mp3'',
          local_datetime_value := Some (formattedDateTime d),
          downloadLink_display := ''block'',
          timers := (case timerInterval s of None \<Rightarrow> timers s
                     | Some k \<Rightarrow> (timers s)[k := False]),
          effects := effects s @ [ClearInterval (timerInterval s)],
          timerDisplay := Some (shown @ '' (Stopped)'')\<rparr>)"
  using assms
  by (simp add: stop_update_page_def clearInterval_def Let_def cong: option.case_cong)

text \<open>What the stop handler has done to the session when it ends, whether it returns
  or throws later on.\<close>

lemma stopBtn_onclick_capture:
  assumes "scriptProcessor s = Some i" and "micStream s = Some live" and "mp3Encoder s = Some enc"
  shows "mp3Data (state_of (stopBtn_onclick L d s)) = mp3Data s @ flush_chunks L enc"
    and "nodes (state_of (stopBtn_onclick L d s)) = (nodes s)[i := False]"
    and "\<exists>rest. effects (state_of (stopBtn_onclick L d s)) =
           effects s @ Disconnect Primary i # StopTracks Primary # Flush Primary # rest"
proof -
  let ?blob = "Blob (mp3Data s @ flush_chunks L enc) ''audio/mp3''"
  let ?s1 = "s\<lparr>nodes := (nodes s)[i := False],
          micStream := Some False,
          mp3Encoder := Some (fst (flush L enc)),
          mp3Data := mp3Data s @ flush_chunks L enc,
          effects := effects s @ [Disconnect Primary i, StopTracks Primary, Flush Primary]\<rparr>"
  have c: "stop_capture L s = Return (?blob, ObjectURL ?blob) ?s1"
    by (rule stop_capture_Return [OF assms])
  have "mp3Data (state_of (stopBtn_onclick L d s)) = mp3Data ?s1 \<and>
        nodes (state_of (stopBtn_onclick L d s)) = nodes ?s1 \<and>
        (\<exists>rest. effects (state_of (stopBtn_onclick L d s)) = effects ?s1 @ rest)"
  proof (cases "stop_update_page d (ObjectURL ?blob) ?s1")
    case (Throw e s')
    with stop_update_page_frame [of d "ObjectURL ?blob" ?s1] show ?thesis
      by (simp add: stopBtn_onclick_def c)
  next
    case (Return fdt s2)
    with stop_update_page_frame [of d "ObjectURL ?blob" ?s1]
    obtain r1 where s2: "mp3Data s2 = mp3Data ?s1" "nodes s2 = nodes ?s1"
      "effects s2 = effects ?s1 @ r1"
      by auto
    from stop_submit_frame [of ?blob "ObjectURL ?blob" fdt s2]
    obtain r2 where s3: "mp3Data (state_of (stop_submit ?blob (ObjectURL ?blob) fdt s2)) = mp3Data s2"
      "nodes (state_of (stop_submit ?blob (ObjectURL ?blob) fdt s2)) = nodes s2"
      "effects (state_of (stop_submit ?blob (ObjectURL ?blob) fdt s2)) = effects s2 @ r2"
      by auto
    have "stopBtn_onclick L d s = stop_submit ?blob (ObjectURL ?blob) fdt s2"
      by (simp add: stopBtn_onclick_def c Return)
    with s2 s3 show ?thesis by simp
  qed
  then show "mp3Data (state_of (stopBtn_onclick L d s)) = mp3Data s @ flush_chunks L enc"
    and "nodes (state_of (stopBtn_onclick L d s)) = (nodes s)[i := False]"
    and "\<exists>rest. effects (state_of (stopBtn_onclick L d s)) =
           effects s @ Disconnect Primary i # StopTracks Primary # Flush Primary # rest"
    by auto
qed

lemma stopBtn_onclick_artifact:
  assumes "scriptProcessor s = Some i" and "micStream s = Some live" and "mp3Encoder s = Some enc"
    and "audioPlayback_src s = Some v"
  shows "audioPlayback_src (state_of (stopBtn_onclick L d s)) =
           Some (ObjectURL (Blob (mp3Data s @ flush_chunks L enc) ''audio/mp3''))"
    and "downloadLink_href (state_of (stopBtn_onclick L d s)) =
           ObjectURL (Blob (mp3Data s @ flush_chunks L enc) ''audio/mp3'')"
    and "downloadLink_download (state_of (stopBtn_onclick L d s)) = formattedDateTime d @ ''.mp3''"
proof -
  let ?blob = "Blob (mp3Data s @ flush_chunks L enc) ''audio/mp3''"
  let ?s1 = "s\<lparr>nodes := (nodes s)[i := False],
          micStream := Some False,
          mp3Encoder := Some (fst (flush L enc)),
          mp3Data := mp3Data s @ flush_chunks L enc,
          effects := effects s @ [Disconnect Primary i, StopTracks Primary, Flush Primary]\<rparr>"
  have c: "stop_capture L s = Return (?blob, ObjectURL ?blob) ?s1"
    by (rule stop_capture_Return [OF assms(1,2,3)])
  have a: "audioPlayback_src ?s1 = Some v"
    using assms(4) by simp
  note u = stop_update_page_artifact [OF a, of d "ObjectURL ?blob"]
  have "audioPlayback_src (state_of (stopBtn_onclick L d s)) = Some (ObjectURL ?blob) \<and>
        downloadLink_href (state_of (stopBtn_onclick L d s)) = ObjectURL ?blob \<and>
        downloadLink_download (state_of (stopBtn_onclick L d s)) = formattedDateTime d @ ''.mp3''"
  proof (cases "stop_update_page d (ObjectURL ?blob) ?s1")
    case (Throw e s')
    with u show ?thesis by (simp add: stopBtn_onclick_def c)
  next
    case (Return fdt s2)
    have "stopBtn_onclick L d s = stop_submit ?blob (ObjectURL ?blob) fdt s2"
      by (simp add: stopBtn_onclick_def c Return)
    with u Return stop_submit_frame [of ?blob "ObjectURL ?blob" fdt s2] show ?thesis by simp
  qed
  then show "audioPlayback_src (state_of (stopBtn_onclick L d s)) = Some (ObjectURL ?blob)"
    and "downloadLink_href (state_of (stopBtn_onclick L d s)) = ObjectURL ?blob"
    and "downloadLink_download (state_of (stopBtn_onclick L d s)) = formattedDateTime d @ ''.mp3''"
    by auto
qed

subsection \<open>The length of the artifact\<close>

text \<open>The session after a start click and a granted permission, whether or not the
  timer display exists.\<close>

lemma start_session_capture:
  assumes "\<not> startBtn_disabled s"
  shows "nodes (dispatch L (StartResume True) (dispatch L (StartClick rate) s)) = nodes s @ [True]"
    and "scriptProcessor (dispatch L (StartResume True) (dispatch L (StartClick rate) s)) =
           Some (length (nodes s))"
    and "micStream (dispatch L (StartResume True) (dispatch L (StartClick rate) s)) = Some True"
    and "mp3Encoder (dispatch L (StartResume True) (dispatch L (StartClick rate) s)) =
           Some (Mp3Encoder L 1 rate 128)"
    and "mp3Data (dispatch L (StartResume True) (dispatch L (StartClick rate) s)) = []"
    and "audioPlayback_src (dispatch L (StartResume True) (dispatch L (StartClick rate) s)) =
           audioPlayback_src s"
    and "\<not> stopBtn_disabled (dispatch L (StartResume True) (dispatch L (StartClick rate) s))"
  using assms
  by (simp_all add: dispatch_def settle_def startBtn_onclick_def startBtn_onclick_resume_def
      Let_def split: option.splits)

lemma recording_state:
  assumes "\<not> startBtn_disabled s"
  shows "run L (recording rate (length (nodes s)) inputs) s =
     (dispatch L (StartResume True) (dispatch L (StartClick rate) s))
       \<lparr>mp3Encoder := Some (encoder_after L (Mp3Encoder L 1 rate 128) inputs),
        mp3Data := filter (\<lambda>c. c \<noteq> []) (encoded_chunks L (Mp3Encoder L 1 rate 128) inputs)\<rparr>"
proof -
  let ?s1 = "dispatch L (StartResume True) (dispatch L (StartClick rate) s)"
  let ?enc = "Mp3Encoder L 1 rate 128"
  note s1 = start_session_capture [OF assms, of L rate]
  have "run L (map (AudioProcess Primary (length (nodes s))) inputs) ?s1 =
      ?s1\<lparr>mp3Encoder := Some (encoder_after L ?enc inputs),
       mp3Data := mp3Data ?s1 @ filter (\<lambda>c. c \<noteq> []) (encoded_chunks L ?enc inputs)\<rparr>"
    by (rule run_audio_on_node) (simp_all add: s1)
  then show ?thesis by (simp add: recording_def s1)
qed

text \<open>
  Claim C5. Take any page with the start button enabled; click start, let the microphone
  be granted, let the node of the new session receive any number of audio buffers, and
  stop. Then the chunk buffer holds the non-empty encoder outputs of the callbacks, in
  order, and the artifact built by the stop handler is a blob whose length is the sum of
  the lengths of these chunks plus the length of the output of the final \<open>flush\<close>. On a
  page that has the audio player, the stop click hands this artifact to the player and
  to the download link.
\<close>

theorem artifact_length:
  assumes "\<not> startBtn_disabled s"
  shows "mp3Data (run L (recording rate (length (nodes s)) inputs) s) =
           filter (\<lambda>c. c \<noteq> []) (encoded_chunks L (Mp3Encoder L 1 rate 128) inputs) \<and>
         (case stop_capture L (run L (recording rate (length (nodes s)) inputs) s) of
            Throw e s' \<Rightarrow> False
          | Return (artifact, url) s' \<Rightarrow>
              url = ObjectURL artifact \<and>
              length (blob_bytes artifact) =
                sum_list (map length (mp3Data (run L (recording rate (length (nodes s)) inputs) s)))
                + length (snd (flush L (encoder_after L (Mp3Encoder L 1 rate 128) inputs))) \<and>
              (audioPlayback_src s \<noteq> None \<longrightarrow>
                 audioPlayback_src
                   (dispatch L (StopClick d) (run L (recording rate (length (nodes s)) inputs) s)) =
                   Some url \<and>
                 downloadLink_href
                   (dispatch L (StopClick d) (run L (recording rate (length (nodes s)) inputs) s)) =
                   url))"
proof -
  let ?s2 = "run L (recording rate (length (nodes s)) inputs) s"
  let ?enc = "encoder_after L (Mp3Encoder L 1 rate 128) inputs"
  let ?artifact = "Blob (mp3Data ?s2 @ flush_chunks L ?enc) ''audio/mp3''"
  note r = recording_state [OF assms, of L rate inputs]
  note st = start_session_capture [OF assms, of L rate]
  have f: "scriptProcessor ?s2 = Some (length (nodes s))" "micStream ?s2 = Some True"
    "mp3Encoder ?s2 = Some ?enc"
    and a: "audioPlayback_src ?s2 = audioPlayback_src s"
    and e: "\<not> stopBtn_disabled ?s2"
    and m: "mp3Data ?s2 =
      filter (\<lambda>c. c \<noteq> []) (encoded_chunks L (Mp3Encoder L 1 rate 128) inputs)"
    by (simp_all add: r st)
  have d: "dispatch L (StopClick d) ?s2 = state_of (stopBtn_onclick L d ?s2)"
    using e by (simp add: dispatch_def)
  have page: "audioPlayback_src s \<noteq> None \<longrightarrow>
      audioPlayback_src (dispatch L (StopClick d) ?s2) = Some (ObjectURL ?artifact) \<and>
      downloadLink_href (dispatch L (StopClick d) ?s2) = ObjectURL ?artifact"
  proof
    assume "audioPlayback_src s \<noteq> None"
    with a obtain v where "audioPlayback_src ?s2 = Some v" by auto
    from stopBtn_onclick_artifact [OF f this, of L d]
    show "audioPlayback_src (dispatch L (StopClick d) ?s2) = Some (ObjectURL ?artifact) \<and>
      downloadLink_href (dispatch L (StopClick d) ?s2) = ObjectURL ?artifact"
      by (simp only: d simp_thms)
  qed
  have len: "length (blob_bytes ?artifact) =
      sum_list (map length (mp3Data ?s2)) + length (snd (flush L ?enc))"
    by (simp add: Blob_def concat_flush_chunks length_concat_sum)
  have "case stop_capture L ?s2 of
            Throw e s' \<Rightarrow> False
          | Return (artifact, url) s' \<Rightarrow>
              url = ObjectURL artifact \<and>
              length (blob_bytes artifact) =
                sum_list (map length (mp3Data ?s2)) + length (snd (flush L ?enc)) \<and>
              (audioPlayback_src s \<noteq> None \<longrightarrow>
                 audioPlayback_src (dispatch L (StopClick d) ?s2) = Some url \<and>
                 downloadLink_href (dispatch L (StopClick d) ?s2) = url)"
    unfolding stop_capture_Return [OF f] result.case prod.case
    using len page by (intro conjI) (rule refl)
  with m show ?thesis ..
qed

lemma loaded_page_recorder:
  "\<not> startBtn_disabled loaded_page"
  "timerDisplay loaded_page = Some []"
  "audioPlayback_src loaded_page = Some (URLString [])"
  "local_datetime_value loaded_page = Some []"
  "nodes loaded_page = []"
  "timers loaded_page = []"
  "pending loaded_page = []"
  "effects loaded_page = []"
  "mp3Data loaded_page = []"
  "timezoneOffset loaded_page = - 60"
  "timezone_offset_value loaded_page = ''60''"
  "globals loaded_page = script_globals"
  "modal loaded_page = Some \<lparr>modal_display = ''none'', modal_contents = [[]]\<rparr>"
  "document_cookie loaded_page = ''sessionid=k3; csrftoken=abc''"
  by (simp_all add: loaded_page_def DOMContentLoaded_def blank_page_def String_int_def
      String_nat.simps digit_char_def)

theorem artifact_length_witness:
  "mp3Data (run toy_lamejs (recording 48000 0 [example_input, [], example_input]) loaded_page) =
     filter (\<lambda>c. c \<noteq> [])
       (encoded_chunks toy_lamejs (Mp3Encoder toy_lamejs 1 48000 128)
          [example_input, [], example_input]) \<and>
   (case stop_capture toy_lamejs
           (run toy_lamejs (recording 48000 0 [example_input, [], example_input]) loaded_page) of
      Throw e s' \<Rightarrow> False
    | Return (artifact, url) s' \<Rightarrow>
        url = ObjectURL artifact \<and>
        length (blob_bytes artifact) =
          sum_list (map length
            (mp3Data
              (run toy_lamejs (recording 48000 0 [example_input, [], example_input]) loaded_page)))
          + length (snd (flush toy_lamejs
              (encoder_after toy_lamejs (Mp3Encoder toy_lamejs 1 48000 128)
                 [example_input, [], example_input]))) \<and>
        audioPlayback_src
          (dispatch toy_lamejs (StopClick example_date)
             (run toy_lamejs (recording 48000 0 [example_input, [], example_input]) loaded_page)) =
          Some url \<and>
        downloadLink_href
          (dispatch toy_lamejs (StopClick example_date)
             (run toy_lamejs (recording 48000 0 [example_input, [], example_input]) loaded_page)) =
          url)"
proof -
  have h: "\<not> startBtn_disabled loaded_page"
    by (simp add: loaded_page_recorder)
  have n: "length (nodes loaded_page) = 0"
    by (simp add: loaded_page_recorder)
  have a: "(audioPlayback_src loaded_page \<noteq> None) = True"
    by (simp add: loaded_page_recorder)
  have i: "(True \<longrightarrow> P) = P" for P
    by simp
  from artifact_length [OF h, of toy_lamejs 48000 "[example_input, [], example_input]"
      example_date]
  show ?thesis unfolding n a i .
qed

section \<open>The transcription exchange\<close>

subsection \<open>The request of the primary flow\<close>

lemma getCSRFToken_Inr: "\<exists>v. getCSRFToken c = Inr v"
  by (simp add: getCSRFToken_def optional_split_index_def member_split_def split: option.splits)

lemma getCSRFToken_no_row:
  assumes "\<forall>row \<in> set (split_js ''; '' c). \<not> startsWith row ''csrftoken=''"
  shows "getCSRFToken c = Inr None"
proof -
  from assms have "find (\<lambda>row. startsWith row ''csrftoken='') (split_js ''; '' c) = None"
    by (simp add: find_None_iff)
  then show ?thesis
    by (simp add: getCSRFToken_def optional_split_index_def)
qed

lemma fetchTranscription_Return:
  assumes "globals s ''formData'' = Some v"
  shows "fetchTranscription u s =
     Return ()
       (s\<lparr>effects := effects s @
            [Fetch \<lparr>request_url = u, request_method = ''POST'',
                    request_csrf = projr (getCSRFToken (document_cookie s)),
                    request_body = v\<rparr>],
          pending := pending s @ [FetchPromise Primary]\<rparr>)"
proof -
  from getCSRFToken_Inr obtain csrf where "getCSRFToken (document_cookie s) = Inr csrf" ..
  with assms show ?thesis by (simp add: fetchTranscription_def)
qed

lemma fetchTranscription_Throw:
  assumes "globals s ''formData'' = None"
  shows "fetchTranscription u s = Throw (ReferenceError ''formData'') s"
proof -
  from getCSRFToken_Inr obtain csrf where "getCSRFToken (document_cookie s) = Inr csrf" ..
  with assms show ?thesis by (simp add: fetchTranscription_def)
qed

text \<open>
  Claim C10. For every cookie string \<open>getCSRFToken\<close> returns a value and raises nothing;
  when no entry of the cookie string starts with \<open>csrftoken=\<close> that value is
  \<^verbatim>\<open>undefined\<close>, and \<open>fetchTranscription\<close> (on a page where the name \<^verbatim>\<open>formData\<close> is
  bound) then issues its request with an undefined token header.
\<close>

theorem getCSRFToken_never_throws:
  "(\<exists>v. getCSRFToken c = Inr v) \<and>
   ((\<forall>row \<in> set (split_js ''; '' c). \<not> startsWith row ''csrftoken='') \<longrightarrow>
      getCSRFToken c = Inr None) \<and>
   ((\<forall>row \<in> set (split_js ''; '' (document_cookie s)). \<not> startsWith row ''csrftoken='') \<longrightarrow>
    globals s ''formData'' = Some v \<longrightarrow>
      fetchTranscription u s =
        Return ()
          (s\<lparr>effects := effects s @
               [Fetch \<lparr>request_url = u, request_method = ''POST'', request_csrf = None,
                       request_body = v\<rparr>],
             pending := pending s @ [FetchPromise Primary]\<rparr>))"
  using getCSRFToken_Inr [of c] getCSRFToken_no_row [of c]
    getCSRFToken_no_row [of "document_cookie s"] fetchTranscription_Return [of s v u]
  by simp

theorem getCSRFToken_never_throws_witness:
  "getCSRFToken ''sessionid=k3; theme=dark'' = Inr None \<and>
   globals no_csrf_page ''formData'' = Some (JFormData []) \<and>
   fetchTranscription (URLString ''/transcribe/'') no_csrf_page =
     Return ()
       (no_csrf_page\<lparr>effects := effects no_csrf_page @
            [Fetch \<lparr>request_url = URLString ''/transcribe/'', request_method = ''POST'',
                    request_csrf = None, request_body = JFormData []\<rparr>],
          pending := pending no_csrf_page @ [FetchPromise Primary]\<rparr>)"
proof -
  have r: "\<forall>row \<in> set (split_js ''; '' ''sessionid=k3; theme=dark'').
      \<not> startsWith row ''csrftoken=''"
    by (simp add: startsWith_def)
  have c: "document_cookie no_csrf_page = ''sessionid=k3; theme=dark''"
    and g: "globals no_csrf_page ''formData'' = Some (JFormData [])"
    by (simp_all add: no_csrf_page_def)
  from r have r': "\<forall>row \<in> set (split_js ''; '' (document_cookie no_csrf_page)).
      \<not> startsWith row ''csrftoken=''"
    by (simp only: c)
  from getCSRFToken_never_throws [of "''sessionid=k3; theme=dark''" no_csrf_page
      "JFormData []" "URLString ''/transcribe/''"] r r' g
  show ?thesis by blast
qed

subsection \<open>What the stop handler of the primary flow submits\<close>

text \<open>The form built by the handler has no part in what follows.\<close>

lemma stop_submit_ignores_form: "stop_submit b u f s = stop_submit b' u f' s"
  by (simp add: stop_submit_def)

text \<open>With \<^verbatim>\<open>token\<close> unbound the handler ends at the call, the modal open.\<close>

lemma stop_submit_token_unbound:
  assumes "modal s = Some m" and "modal_contents m = c # cs" and "globals s ''token'' = None"
  shows "stop_submit b u f s =
     Throw (ReferenceError ''token'')
       (s\<lparr>modal := Some (m\<lparr>modal_display := ''block'',
                         modal_contents := ''Please wait for transcription to complete...'' # cs\<rparr>),
          globals := (globals s)(''container'' \<mapsto> JElement ''modal-content'')\<rparr>)"
  using assms(3) by (simp add: stop_submit_def textModal_Return [OF assms(1,2)])

text \<open>
  With \<^verbatim>\<open>token\<close> and \<^verbatim>\<open>formData\<close> bound by some other script, the request goes to the
  URL passed in, which is the object URL of the blob, and its body is the global value.
\<close>

lemma stop_submit_posts:
  assumes "modal s = Some m" and "modal_contents m = c # cs" and "globals s ''token'' = Some t"
    and "globals s ''formData'' = Some v"
  shows "stop_submit b u f s =
     Return ()
       (s\<lparr>modal := Some (m\<lparr>modal_display := ''block'',
                         modal_contents := ''Please wait for transcription to complete...'' # cs\<rparr>),
          globals := (globals s)(''container'' \<mapsto> JElement ''modal-content''),
          effects := effects s @
            [Fetch \<lparr>request_url = u, request_method = ''POST'',
                    request_csrf = projr (getCSRFToken (document_cookie s)),
                    request_body = v\<rparr>],
          pending := pending s @ [FetchPromise Primary]\<rparr>)"
proof -
  let ?s1 = "s\<lparr>modal := Some (m\<lparr>modal_display := ''block'',
                         modal_contents := ''Please wait for transcription to complete...'' # cs\<rparr>),
          globals := (globals s)(''container'' \<mapsto> JElement ''modal-content'')\<rparr>"
  have t: "textModal ''Please wait for transcription to complete...'' s = Return () ?s1"
    by (rule textModal_Return [OF assms(1,2)])
  have g: "globals ?s1 ''formData'' = Some v"
    using assms(4) by simp
  show ?thesis
    using assms(3) by (simp add: stop_submit_def t fetchTranscription_Return [OF g])
qed

text \<open>
  So, whatever the global scope holds: a request issued by the stop handler goes to an
  object URL, never to an address written in the script, and its body is the value of
  the global name \<^verbatim>\<open>formData\<close>.
\<close>

lemma stop_capture_requests:
  "globals (state_of (stop_capture L s)) = globals s \<and>
   (Fetch r \<in> set (effects (state_of (stop_capture L s))) \<longleftrightarrow> Fetch r \<in> set (effects s))"
  by (simp add: stop_capture_def Let_def split: option.splits prod.splits)

lemma stop_capture_url:
  assumes "stop_capture L s = Return (b, u) s'"
  shows "u = ObjectURL b"
  using assms
  by (auto simp add: stop_capture_def Let_def createObjectURL_def split: option.splits prod.splits)

lemma stop_update_page_requests:
  "globals (state_of (stop_update_page d u s)) = globals s \<and>
   (Fetch r \<in> set (effects (state_of (stop_update_page d u s))) \<longleftrightarrow> Fetch r \<in> set (effects s))"
  by (simp add: stop_update_page_def clearInterval_def Let_def split: option.splits)

lemma stop_submit_requests:
  assumes "Fetch r \<in> set (effects (state_of (stop_submit b u f s)))"
  shows "Fetch r \<in> set (effects s) \<or>
         (request_url r = u \<and> globals s ''formData'' = Some (request_body r))"
proof (cases "textModal ''Please wait for transcription to complete...'' s")
  case (Throw e s')
  with assms textModal_frame [of "''Please wait for transcription to complete...''" s]
  show ?thesis by (simp add: stop_submit_def)
next
  case (Return v s1)
  with textModal_frame [of "''Please wait for transcription to complete...''" s]
  have e: "effects s1 = effects s" by simp
  from Return have g: "globals s1 ''formData'' = globals s ''formData''"
    by (auto simp add: textModal_def split: option.splits list.splits)
  show ?thesis
  proof (cases "globals s1 ''token''")
    case None
    with assms Return e show ?thesis by (simp add: stop_submit_def)
  next
    case (Some token)
    show ?thesis
    proof (cases "globals s1 ''formData''")
      case None
      with assms Return Some e fetchTranscription_Throw [of s1 u] show ?thesis
        by (simp add: stop_submit_def)
    next
      case (Some v)
      with assms Return \<open>globals s1 ''token'' = Some token\<close> e g
        fetchTranscription_Return [of s1 v u]
      show ?thesis
        by (auto simp add: stop_submit_def)
    qed
  qed
qed

lemma stopBtn_onclick_requests:
  assumes "Fetch r \<in> set (effects (state_of (stopBtn_onclick L d s)))"
  shows "Fetch r \<in> set (effects s) \<or>
         ((\<exists>b. request_url r = ObjectURL b) \<and> globals s ''formData'' = Some (request_body r))"
proof (cases "stop_capture L s")
  case (Throw e s')
  with assms stop_capture_requests [of L s r] show ?thesis
    by (simp add: stopBtn_onclick_def)
next
  case (Return bu s1)
  obtain b u where bu: "bu = (b, u)" by (cases bu)
  from Return bu have u: "u = ObjectURL b" by (simp add: stop_capture_url)
  from Return stop_capture_requests [of L s r]
  have s1: "globals s1 = globals s" "Fetch r \<in> set (effects s1) \<longleftrightarrow> Fetch r \<in> set (effects s)"
    by simp_all
  show ?thesis
  proof (cases "stop_update_page d u s1")
    case (Throw e s')
    with assms Return bu stop_update_page_requests [of d u s1 r] s1 show ?thesis
      by (simp add: stopBtn_onclick_def)
  next
    case (Return fdt s2)
    with stop_update_page_requests [of d u s1 r] s1
    have s2: "globals s2 = globals s" "Fetch r \<in> set (effects s2) \<longleftrightarrow> Fetch r \<in> set (effects s)"
      by simp_all
    have "state_of (stopBtn_onclick L d s) = state_of (stop_submit b u fdt s2)"
      using \<open>stop_capture L s = Return bu s1\<close> bu Return by (simp add: stopBtn_onclick_def)
    with assms have "Fetch r \<in> set (effects (state_of (stop_submit b u fdt s2)))" by simp
    from stop_submit_requests [OF this] s2 u show ?thesis by auto
  qed
qed

subsection \<open>One recording, evaluated\<close>

lemma recorded_page_fields:
  "scriptProcessor recorded_page = Some 0"
  "micStream recorded_page = Some True"
  "mp3Encoder recorded_page = Some 8"
  "mp3Data recorded_page = [[85, 85], [85, 85]]"
  "nodes recorded_page = [True]"
  "audioPlayback_src recorded_page = Some (URLString [])"
  "local_datetime_value recorded_page = Some []"
  "timerDisplay recorded_page = Some ''Recording: 00:03''"
  "timerInterval recorded_page = Some 0"
  "timers recorded_page = [True]"
  "effects recorded_page = [GetUserMedia Primary, SetInterval 0]"
  "pending recorded_page = []"
  "modal recorded_page = Some \<lparr>modal_display = ''none'', modal_contents = [[]]\<rparr>"
  "globals recorded_page = script_globals"
  "timezoneOffset recorded_page = - 60"
  "timezone_offset_value recorded_page = ''60''"
  "document_cookie recorded_page = ''sessionid=k3; csrftoken=abc''"
  "\<not> stopBtn_disabled recorded_page"
  by (simp_all add: recorded_page_def one_recording_def dispatch_def settle_def
      startBtn_onclick_def startBtn_onclick_resume_def onaudioprocess_def timer_callback_def
      Let_def loaded_page_recorder toy_lamejs_def example_input_def floatTo16BitPCM_def
      formatTime_def padStart_def String_nat.simps digit_char_def)

lemma formattedDateTime_example: "formattedDateTime example_date = ''20240305070809''"
  by (simp add: formattedDateTime_def example_date_def padStart_def String_nat.simps
      digit_char_def)

lemma stopBtn_onclick_example:
  "stopBtn_onclick toy_lamejs example_date recorded_page =
     Throw (ReferenceError ''token'')
       (recorded_page
          \<lparr>nodes := [False], micStream := Some False, mp3Encoder := Some 0,
           mp3Data := [[85, 85], [85, 85], [255, 251]],
           effects := [GetUserMedia Primary, SetInterval 0, Disconnect Primary 0,
                       StopTracks Primary, Flush Primary, ClearInterval (Some 0)],
           audioPlayback_src :=
             Some (ObjectURL \<lparr>blob_bytes = [85, 85, 85, 85, 255, 251], blob_type = ''audio/mp3''\<rparr>),
           downloadLink_href :=
             ObjectURL \<lparr>blob_bytes = [85, 85, 85, 85, 255, 251], blob_type = ''audio/mp3''\<rparr>,
           startBtn_disabled := False, stopBtn_disabled := True,
           downloadLink_download := ''20240305070809.mp3'',
           local_datetime_value := Some ''20240305070809'',
           downloadLink_display := ''block'',
           timers := [False],
           timerDisplay := Some ''Recording: 00:03 (Stopped)'',
           modal := Some \<lparr>modal_display = ''block'',
                        modal_contents = [''Please wait for transcription to complete...'']\<rparr>,
           globals := script_globals(''container'' \<mapsto> JElement ''modal-content'')\<rparr>)"
  by (simp add: stopBtn_onclick_def stop_capture_def stop_update_page_def stop_submit_def
      textModal_def clearInterval_def Let_def recorded_page_fields toy_lamejs_def Blob_def
      createObjectURL_def formattedDateTime_example script_globals_def)

lemma stopBtn_onclick_formData_example:
  "stopBtn_onclick_formData toy_lamejs example_date recorded_page =
     Some [(''file'',
            FileEntry \<lparr>blob_bytes = [85, 85, 85, 85, 255, 251], blob_type = ''audio/mp3''\<rparr>
              ''20240305070809.mp3''),
           (''new_file'', TextEntry ''true''),
           (''local_datetime'', TextEntry ''20240305070809''),
           (''timezone_offset'', TextEntry ''-60'')]"
  by (simp add: stopBtn_onclick_formData_def stop_capture_def stop_update_page_def
      clearInterval_def Let_def recorded_page_fields toy_lamejs_def Blob_def
      createObjectURL_def formattedDateTime_example stopBtn_formData_def String_int_def
      String_nat.simps digit_char_def)

text \<open>
  Claim C1, at a concrete recording. The page declares only what the three scripts
  declare; the user records and clicks stop. The handler builds the form with the audio
  file, the flag, the local date and time and the time zone offset, and shows the modal;
  then it throws \<^verbatim>\<open>ReferenceError\<close> on the unbound name \<^verbatim>\<open>token\<close>: no request is logged
  or pending, and the modal stays open.
\<close>

theorem stop_click_posts_nothing:
  "map_option (map fst) (stopBtn_onclick_formData toy_lamejs example_date recorded_page) =
     Some [''file'', ''new_file'', ''local_datetime'', ''timezone_offset''] \<and>
   (case stopBtn_onclick toy_lamejs example_date recorded_page of
      Return u s' \<Rightarrow> False
    | Throw e s' \<Rightarrow>
        e = ReferenceError ''token'' \<and>
        effects s' =
          [GetUserMedia Primary, SetInterval 0, Disconnect Primary 0, StopTracks Primary,
           Flush Primary, ClearInterval (Some 0)] \<and>
        pending s' = [] \<and>
        modal_shown s')"
  by (simp add: stopBtn_onclick_example stopBtn_onclick_formData_example modal_shown_def
      recorded_page_fields)

subsection \<open>The time zone offset\<close>

lemma timezone_offset_hidden_input:
  "timezone_offset_value (DOMContentLoaded tz s) = String_int (- tz)"
  by (simp add: DOMContentLoaded_def)

lemma timezone_offset_form_entry:
  "map_of (stopBtn_formData b f (timezoneOffset (DOMContentLoaded tz s))) ''timezone_offset'' =
     Some (TextEntry (String_int tz))"
  by (simp add: DOMContentLoaded_def stopBtn_formData_def)

lemma stopBtn_onclick_formData_timezone:
  assumes "stopBtn_onclick_formData L d s = Some form"
  shows "map_of form ''timezone_offset'' = Some (TextEntry (String_int (timezoneOffset s)))"
proof -
  from assms obtain blob url s1 fdt s2 where c: "stop_capture L s = Return (blob, url) s1"
    and u: "stop_update_page d url s1 = Return fdt s2"
    and f: "form = stopBtn_formData blob fdt (timezoneOffset s2)"
    by (auto simp add: stopBtn_onclick_formData_def split: result.splits prod.splits)
  from c have "timezoneOffset s1 = timezoneOffset s"
    by (auto simp add: stop_capture_def Let_def split: option.splits prod.splits)
  moreover from u stop_update_page_frame [of d url s1] have "timezoneOffset s2 = timezoneOffset s1"
    by simp
  ultimately show ?thesis
    by (simp add: f stopBtn_formData_def)
qed

text \<open>
  Claim C2, in a browser one hour ahead of UTC, where \<^verbatim>\<open>getTimezoneOffset()\<close> is
  \<open>-60\<close>: the hidden input gets the negated value \<open>60\<close>, but the form built by the stop
  handler carries \<open>-60\<close>, the value as the browser reports it.
\<close>

theorem timezone_offset_not_negated:
  "timezone_offset_value loaded_page = ''60'' \<and>
   map_option (\<lambda>form. map_of form ''timezone_offset'')
     (stopBtn_onclick_formData toy_lamejs example_date recorded_page) =
     Some (Some (TextEntry ''-60''))"
  by (simp add: loaded_page_recorder stopBtn_onclick_formData_example)

subsection \<open>The name of the download\<close>

lemma String_nat_digits: "set (String_nat n) \<subseteq> set ''0123456789''"
proof (induction n rule: String_nat.induct)
  case (1 n)
  show ?case
  proof (cases "n < 10")
    case True
    then show ?thesis
      using digit_char_is_digit [of n] by (subst String_nat.simps) simp
  next
    case False
    have "n mod 10 < 10" by simp
    then have "digit_char (n mod 10) \<in> set ''0123456789''" by (rule digit_char_is_digit)
    with False "1.IH" show ?thesis
      by (subst String_nat.simps) simp
  qed
qed

lemma padStart_zero_digits:
  assumes "set s \<subseteq> set ''0123456789''"
  shows "set (padStart n ''0'' s) \<subseteq> set ''0123456789''"
proof -
  have "set (take k (concat (replicate k ''0''))) \<subseteq> {CHR ''0''}" for k
    using set_take_subset [of k "concat (replicate k ''0'')"] by auto
  with assms show ?thesis
    by (auto simp add: padStart_def)
qed

text \<open>For every date the string is made of decimal digits only.\<close>

lemma formattedDateTime_digits: "set (formattedDateTime d) \<subseteq> set ''0123456789''"
  using String_nat_digits padStart_zero_digits [OF String_nat_digits]
  by (simp add: formattedDateTime_def Let_def)

lemma formattedDateTime_no_underscore: "CHR ''_'' \<notin> set (formattedDateTime d)"
  using formattedDateTime_digits [of d] by auto

text \<open>
  Claim C3, for a capture finished on 5 March 2024 at 07:08:09. The download is named
  \<open>20240305070809.mp3\<close>: fourteen digits, with no underscore between the date and the
  time. The hidden field holds the same fourteen digits.
\<close>

theorem download_name_has_no_underscore:
  "downloadLink_download (dispatch toy_lamejs (StopClick example_date) recorded_page) =
     ''20240305070809.mp3'' \<and>
   local_datetime_value (dispatch toy_lamejs (StopClick example_date) recorded_page) =
     Some ''20240305070809''"
  by (simp add: dispatch_def recorded_page_fields stopBtn_onclick_example)

subsection \<open>A failed exchange\<close>

lemma voiceChat_data_Throw:
  assumes "voiceChat_data data s = Throw e s'"
  shows "modal s' = modal s"
  using assms
  by (auto simp add: voiceChat_data_def closeModal_def
      split: option.splits response_body.splits)

lemma fetchTranscription_data_Throw:
  assumes "fetchTranscription_data data s = Throw e s'"
  shows "modal s' = modal s"
  using assms
  by (auto simp add: fetchTranscription_data_def closeModal_def Let_def
      split: option.splits response_body.splits result.splits)

lemma settled_failure:
  assumes "fetch_failed outcome"
  shows "voiceChat_settled outcome s = console_error (failure_of outcome) s"
    and "fetchTranscription_settled outcome s = console_error (failure_of outcome) s"
proof -
  have "voiceChat_settled outcome s = console_error (failure_of outcome) s \<and>
        fetchTranscription_settled outcome s = console_error (failure_of outcome) s"
  proof (cases outcome)
    case (Rejected e)
    then show ?thesis
      by (simp add: voiceChat_settled_def fetchTranscription_settled_def)
  next
    case (Responded data)
    with assms have "data = NotJSON" by (cases data) simp_all
    with Responded show ?thesis
      by (simp add: voiceChat_settled_def fetchTranscription_settled_def)
  qed
  then show "voiceChat_settled outcome s = console_error (failure_of outcome) s"
    and "fetchTranscription_settled outcome s = console_error (failure_of outcome) s"
    by simp_all
qed

text \<open>Whatever the outcome, a modal that was open and is hidden afterwards was closed
  by the data callback, on a parsed answer that has a \<^verbatim>\<open>context\<close>.\<close>

lemma voiceChat_settled_hides:
  assumes "modal_shown s" and "modal_hidden (voiceChat_settled outcome s)"
  shows "\<exists>ctx. outcome = Responded (JsonValue (Some ctx))"
proof (cases outcome)
  case (Rejected e)
  with assms show ?thesis
    by (auto simp add: voiceChat_settled_def console_error_def modal_shown_def modal_hidden_def
        split: option.splits)
next
  case (Responded data)
  show ?thesis
  proof (cases data)
    case NotJSON
    with Responded assms show ?thesis
      by (auto simp add: voiceChat_settled_def console_error_def modal_shown_def
          modal_hidden_def split: option.splits)
  next
    case JsonNull
    with Responded assms show ?thesis
      by (auto simp add: voiceChat_settled_def voiceChat_data_def console_error_def
          modal_shown_def modal_hidden_def split: option.splits)
  next
    case (JsonValue c)
    with Responded assms show ?thesis
      by (cases c)
        (auto simp add: voiceChat_settled_def voiceChat_data_def console_error_def
          modal_shown_def modal_hidden_def split: option.splits)
  qed
qed

lemma fetchTranscription_settled_hides:
  assumes "modal_shown s" and "modal_hidden (fetchTranscription_settled outcome s)"
  shows "\<exists>ctx. outcome = Responded (JsonValue (Some ctx))"
proof (cases outcome)
  case (Rejected e)
  with assms show ?thesis
    by (auto simp add: fetchTranscription_settled_def console_error_def modal_shown_def
        modal_hidden_def split: option.splits)
next
  case (Responded data)
  have unchanged: "modal (fetchTranscription_settled (Responded data) s) = modal s"
    if "\<forall>ctx. data \<noteq> JsonValue (Some ctx)"
  proof (cases "fetchTranscription_data data s")
    case (Throw e s')
    with fetchTranscription_data_Throw [OF Throw] show ?thesis
      by (cases data) (simp_all add: fetchTranscription_settled_def console_error_def)
  next
    case (Return u s')
    with that have False
      by (cases data)
        (auto simp add: fetchTranscription_data_def Let_def
          split: option.splits result.splits)
    then show ?thesis ..
  qed
  show ?thesis
  proof (rule ccontr)
    assume "\<nexists>ctx. outcome = Responded (JsonValue (Some ctx))"
    with Responded have "\<forall>ctx. data \<noteq> JsonValue (Some ctx)" by simp
    from unchanged [OF this] Responded assms show False
      by (auto simp add: modal_shown_def modal_hidden_def split: option.splits)
  qed
qed

lemma voiceChatStopBtn_onclick_shows:
  assumes "voiceChatStopBtn_onclick L s = Return u s1"
  shows "modal_shown s1"
proof (cases "chat_stop_capture L s")
  case (Throw e s')
  with assms show ?thesis by (simp add: voiceChatStopBtn_onclick_def)
next
  case (Return bu s')
  obtain b url where bu: "bu = (b, url)" by (cases bu)
  let ?s2 = "s'\<lparr>voiceChatStartBtn_disabled := False,
                     voiceChatStartBtn_display := ''inline-flex'',
                     voiceChatStopBtn_disabled := True,
                     voiceChatStopBtn_display := ''none''\<rparr>"
  show ?thesis
  proof (cases "textModal ''Please wait for voice instruction transcription to complete...'' ?s2")
    case (Throw e s'')
    with assms Return bu show ?thesis
      by (simp add: voiceChatStopBtn_onclick_def Let_def)
  next
    case (Return v s3)
    with assms \<open>chat_stop_capture L s = Return bu s'\<close> bu have "modal s1 = modal s3"
      by (auto simp add: voiceChatStopBtn_onclick_def Let_def)
    with textModal_shows [OF Return] show ?thesis
      by (simp add: modal_shown_def)
  qed
qed

subsection \<open>One voice instruction, evaluated\<close>

lemma loaded_page_transcript:
  "no_transcription_message_display loaded_page = Some ''block''"
  "form_container_display loaded_page = Some ''none''"
  "reformat loaded_page = Some \<lparr>filename_value = Some [], transcript_value = Some []\<rparr>"
  "soap_iframe_body loaded_page = Some (Some [])"
  "edit_chat_input loaded_page = Some []"
  "\<not> voiceChatStartBtn_disabled loaded_page"
  "chatNodes loaded_page = []"
  by (simp_all add: loaded_page_def DOMContentLoaded_def blank_page_def)

lemma chat_recorded_page_fields:
  "chatScriptProcessor chat_recorded_page = Some 0"
  "chatMicStream chat_recorded_page = Some True"
  "chatMp3Encoder chat_recorded_page = Some 4"
  "chatMp3Data chat_recorded_page = [[85, 85]]"
  "chatNodes chat_recorded_page = [True]"
  "modal chat_recorded_page = Some \<lparr>modal_display = ''none'', modal_contents = [[]]\<rparr>"
  "edit_chat_input chat_recorded_page = Some []"
  "effects chat_recorded_page = [GetUserMedia VoiceChat]"
  "pending chat_recorded_page = []"
  by (simp_all add: chat_recorded_page_def dispatch_def settle_def
      voiceChatStartBtn_onclick_def voiceChatStartBtn_onclick_resume_def chat_onaudioprocess_def
      Let_def loaded_page_recorder loaded_page_transcript toy_lamejs_def example_input_def
      floatTo16BitPCM_def)

lemma voiceChatStopBtn_onclick_example:
  "voiceChatStopBtn_onclick toy_lamejs chat_recorded_page = Return () chat_stopped_page"
proof -
  have "returns (voiceChatStopBtn_onclick toy_lamejs chat_recorded_page)"
    by (simp add: voiceChatStopBtn_onclick_def chat_stop_capture_def textModal_def Let_def
        chat_recorded_page_fields toy_lamejs_def)
  then show ?thesis
    by (cases "voiceChatStopBtn_onclick toy_lamejs chat_recorded_page")
      (simp_all add: chat_stopped_page_def)
qed

lemma chat_stopped_page_fields:
  "modal chat_stopped_page =
     Some \<lparr>modal_display = ''block'',
           modal_contents = [''Please wait for voice instruction transcription to complete...'']\<rparr>"
  "edit_chat_input chat_stopped_page = Some []"
  "chatMp3Data chat_stopped_page = [[85, 85], [255, 251]]"
  "chatNodes chat_stopped_page = [False]"
  by (simp_all add: chat_stopped_page_def voiceChatStopBtn_onclick_def chat_stop_capture_def
      textModal_def Let_def chat_recorded_page_fields toy_lamejs_def)

lemma waiting_page_fields:
  "modal waiting_page =
     Some \<lparr>modal_display = ''block'',
           modal_contents = [''Please wait for transcription to complete...'']\<rparr>"
  "no_transcription_message_display waiting_page = Some ''block''"
  "form_container_display waiting_page = Some ''none''"
  "reformat waiting_page = Some \<lparr>filename_value = Some [], transcript_value = Some []\<rparr>"
  "soap_iframe_body waiting_page = Some (Some [])"
  by (simp_all add: waiting_page_def textModal_def loaded_page_recorder loaded_page_transcript)

text \<open>
  Claim C7. When the exchange fails (the request is rejected, or the body of the answer
  is not JSON), the promise chain of either flow does one thing: it writes the error to
  the console. Nothing else on the page changes, so the modal shown by the voice
  instruction's stop handler before the request stays shown. Only the data callback
  closes the modal: if a settled exchange leaves a shown modal hidden, the outcome was a
  parsed answer with a \<^verbatim>\<open>context\<close>.
\<close>

theorem exchange_failure_keeps_modal:
  assumes "fetch_failed outcome" and "voiceChatStopBtn_onclick L s = Return u s1"
  shows "modal_shown s1 \<and>
         voiceChat_settled outcome s1 =
           s1\<lparr>effects := effects s1 @ [ConsoleError (failure_of outcome)]\<rparr> \<and>
         modal_shown (voiceChat_settled outcome s1) \<and>
         fetchTranscription_settled outcome p =
           p\<lparr>effects := effects p @ [ConsoleError (failure_of outcome)]\<rparr> \<and>
         (modal_hidden (voiceChat_settled other s1) \<longrightarrow>
            (\<exists>ctx. other = Responded (JsonValue (Some ctx)))) \<and>
         (modal_shown p \<longrightarrow> modal_hidden (fetchTranscription_settled other p) \<longrightarrow>
            (\<exists>ctx. other = Responded (JsonValue (Some ctx))))"
proof -
  have shown: "modal_shown s1"
    by (rule voiceChatStopBtn_onclick_shows [OF assms(2)])
  have v: "voiceChat_settled outcome s1 =
      s1\<lparr>effects := effects s1 @ [ConsoleError (failure_of outcome)]\<rparr>"
    and f: "fetchTranscription_settled outcome p =
      p\<lparr>effects := effects p @ [ConsoleError (failure_of outcome)]\<rparr>"
    using settled_failure [OF assms(1)] by (simp_all add: console_error_def)
  have "modal_shown (voiceChat_settled outcome s1)"
    using shown by (simp add: v modal_shown_def)
  with shown v f voiceChat_settled_hides [OF shown, of other]
    fetchTranscription_settled_hides [of p other]
  show ?thesis by blast
qed

theorem exchange_failure_keeps_modal_witness:
  "fetch_failed (Rejected NetworkError) \<and>
   voiceChatStopBtn_onclick toy_lamejs chat_recorded_page = Return () chat_stopped_page \<and>
   modal_shown chat_stopped_page \<and>
   voiceChat_settled (Rejected NetworkError) chat_stopped_page =
     chat_stopped_page\<lparr>effects := effects chat_stopped_page @ [ConsoleError NetworkError]\<rparr> \<and>
   modal_shown (voiceChat_settled (Rejected NetworkError) chat_stopped_page) \<and>
   fetchTranscription_settled (Rejected NetworkError) waiting_page =
     waiting_page\<lparr>effects := effects waiting_page @ [ConsoleError NetworkError]\<rparr> \<and>
   modal_hidden (voiceChat_settled example_answer chat_stopped_page) \<and>
   modal_shown waiting_page \<and>
   modal_hidden (fetchTranscription_settled example_answer waiting_page) \<and>
   (\<exists>ctx. example_answer = Responded (JsonValue (Some ctx)))"
proof -
  have h1: "fetch_failed (Rejected NetworkError)" by simp
  note h2 = voiceChatStopBtn_onclick_example
  have h3: "modal_hidden (voiceChat_settled example_answer chat_stopped_page)"
    by (simp add: voiceChat_settled_def voiceChat_data_def closeModal_def example_answer_def
        chat_stopped_page_fields modal_hidden_def)
  have h4: "modal_shown waiting_page"
    by (simp add: modal_shown_def waiting_page_fields)
  have h5: "modal_hidden (fetchTranscription_settled example_answer waiting_page)"
    by (simp add: fetchTranscription_settled_def fetchTranscription_data_def closeModal_def
        example_answer_def waiting_page_fields modal_hidden_def Let_def)
  have e: "failure_of (Rejected NetworkError) = NetworkError" by simp
  from exchange_failure_keeps_modal [OF h1 h2, of waiting_page example_answer] h1 h2 h3 h4 h5
  show ?thesis unfolding e by blast
qed

section \<open>The chunk buffer over the life of a session\<close>

subsection \<open>Handlers that leave the buffers alone\<close>

lemma extends_append: "extends xs (xs @ cs)"
  by (simp add: extends_def)

lemma extends_refl: "extends xs xs"
  by (simp add: extends_def)

lemma same_buffers_refl: "same_buffers s s"
  by (simp add: same_buffers_def)

lemma same_buffers_trans: "same_buffers s s' \<Longrightarrow> same_buffers s' s'' \<Longrightarrow> same_buffers s s''"
  by (simp add: same_buffers_def)

lemma same_buffers_extends:
  assumes "same_buffers s s'"
  shows "extends (buffer_of fl s) (buffer_of fl s')"
  using assms by (cases fl) (simp_all add: same_buffers_def extends_def)

lemma console_error_buffers: "same_buffers s s' \<Longrightarrow> same_buffers s (console_error e s')"
  by (simp add: same_buffers_def console_error_def)

lemma textModal_buffers: "same_buffers s (state_of (textModal c s))"
  by (simp add: same_buffers_def textModal_def split: option.splits list.splits)

lemma fetchTranscription_buffers: "same_buffers s (state_of (fetchTranscription u s))"
  by (simp add: same_buffers_def fetchTranscription_def split: option.splits sum.splits)

lemma fetchTranscription_data_buffers:
  "same_buffers s (state_of (fetchTranscription_data data s))"
  by (auto simp add: same_buffers_def fetchTranscription_data_def closeModal_def Let_def
      split: option.splits response_body.splits result.splits)

lemma fetchTranscription_settled_buffers: "same_buffers s (fetchTranscription_settled outcome s)"
proof (cases outcome)
  case (Rejected e)
  then show ?thesis
    by (simp add: fetchTranscription_settled_def console_error_buffers same_buffers_refl)
next
  case (Responded data)
  have d: "same_buffers s (state_of (fetchTranscription_data data s))"
    by (rule fetchTranscription_data_buffers)
  show ?thesis
  proof (cases "fetchTranscription_data data s")
    case (Return u s')
    with d Responded show ?thesis
      by (cases data)
        (simp_all add: fetchTranscription_settled_def console_error_buffers same_buffers_refl)
  next
    case (Throw e s')
    with d Responded show ?thesis
      by (cases data)
        (simp_all add: fetchTranscription_settled_def console_error_buffers same_buffers_refl)
  qed
qed

lemma voiceChat_data_buffers: "same_buffers s (state_of (voiceChat_data data s))"
  by (auto simp add: same_buffers_def voiceChat_data_def closeModal_def
      split: option.splits response_body.splits)

lemma voiceChat_settled_buffers: "same_buffers s (voiceChat_settled outcome s)"
proof (cases outcome)
  case (Rejected e)
  then show ?thesis
    by (simp add: voiceChat_settled_def console_error_buffers same_buffers_refl)
next
  case (Responded data)
  have d: "same_buffers s (state_of (voiceChat_data data s))"
    by (rule voiceChat_data_buffers)
  show ?thesis
  proof (cases "voiceChat_data data s")
    case (Return u s')
    with d Responded show ?thesis
      by (cases data)
        (simp_all add: voiceChat_settled_def console_error_buffers same_buffers_refl)
  next
    case (Throw e s')
    with d Responded show ?thesis
      by (cases data)
        (simp_all add: voiceChat_settled_def console_error_buffers same_buffers_refl)
  qed
qed

lemma timer_callback_buffers: "same_buffers s (state_of (timer_callback s))"
  by (simp add: same_buffers_def timer_callback_def Let_def split: option.splits)

lemma stop_update_page_buffers: "same_buffers s (state_of (stop_update_page d u s))"
  by (simp add: same_buffers_def stop_update_page_def clearInterval_def Let_def
      split: option.splits)

lemma stop_submit_buffers: "same_buffers s (state_of (stop_submit b u f s))"
proof (cases "textModal ''Please wait for transcription to complete...'' s")
  case (Throw e s')
  with textModal_buffers [of s "''Please wait for transcription to complete...''"]
  show ?thesis by (simp add: stop_submit_def)
next
  case (Return v s1)
  with textModal_buffers [of s "''Please wait for transcription to complete...''"]
  have s1: "same_buffers s s1" by simp
  show ?thesis
  proof (cases "globals s1 ''token''")
    case None
    with Return s1 show ?thesis by (simp add: stop_submit_def)
  next
    case (Some token)
    with Return have "state_of (stop_submit b u f s) = state_of (fetchTranscription u s1)"
      by (simp add: stop_submit_def)
    with same_buffers_trans [OF s1 fetchTranscription_buffers [of s1 u]] show ?thesis
      by simp
  qed
qed

lemma startBtn_onclick_buffers: "same_buffers s (state_of (startBtn_onclick rate s))"
  by (simp add: same_buffers_def startBtn_onclick_def)

lemma voiceChatStartBtn_onclick_buffers:
  "same_buffers s (state_of (voiceChatStartBtn_onclick rate s))"
  by (simp add: same_buffers_def voiceChatStartBtn_onclick_def)

lemma startBtn_onclick_resume_chat:
  "chatMp3Data (state_of (startBtn_onclick_resume L granted s)) = chatMp3Data s"
  by (simp add: startBtn_onclick_resume_def Let_def split: option.splits)

lemma voiceChatStartBtn_onclick_resume_primary:
  "mp3Data (state_of (voiceChatStartBtn_onclick_resume L granted s)) = mp3Data s"
  by (simp add: voiceChatStartBtn_onclick_resume_def Let_def split: option.splits)

subsection \<open>The stop handlers only append\<close>

lemma stop_capture_appends:
  "chatMp3Data (state_of (stop_capture L s)) = chatMp3Data s \<and>
   extends (mp3Data s) (mp3Data (state_of (stop_capture L s)))"
  by (simp add: stop_capture_def Let_def extends_def split: option.splits prod.splits)

lemma chat_stop_capture_appends:
  "mp3Data (state_of (chat_stop_capture L s)) = mp3Data s \<and>
   extends (chatMp3Data s) (chatMp3Data (state_of (chat_stop_capture L s)))"
  by (simp add: chat_stop_capture_def Let_def extends_def split: option.splits prod.splits)

lemma stopBtn_onclick_appends:
  "chatMp3Data (state_of (stopBtn_onclick L d s)) = chatMp3Data s \<and>
   extends (mp3Data s) (mp3Data (state_of (stopBtn_onclick L d s)))"
proof (cases "stop_capture L s")
  case (Throw e s')
  with stop_capture_appends [of L s] show ?thesis
    by (simp add: stopBtn_onclick_def)
next
  case (Return bu s1)
  obtain b u where bu: "bu = (b, u)" by (cases bu)
  from Return stop_capture_appends [of L s]
  have s1: "chatMp3Data s1 = chatMp3Data s" "extends (mp3Data s) (mp3Data s1)"
    by simp_all
  show ?thesis
  proof (cases "stop_update_page d u s1")
    case (Throw e s')
    with stop_update_page_buffers [of s1 d u] s1 Return bu show ?thesis
      by (simp add: stopBtn_onclick_def same_buffers_def)
  next
    case (Return fdt s2)
    with stop_update_page_buffers [of s1 d u] have s2: "same_buffers s1 s2" by simp
    have "state_of (stopBtn_onclick L d s) = state_of (stop_submit b u fdt s2)"
      using \<open>stop_capture L s = Return bu s1\<close> bu Return by (simp add: stopBtn_onclick_def)
    with same_buffers_trans [OF s2 stop_submit_buffers [of s2 b u fdt]] s1 show ?thesis
      by (simp add: same_buffers_def)
  qed
qed

lemma voiceChatStopBtn_onclick_capture:
  assumes "chatScriptProcessor s = Some i" and "chatMicStream s = Some live"
    and "chatMp3Encoder s = Some enc"
  shows "chatMp3Data (state_of (voiceChatStopBtn_onclick L s)) = chatMp3Data s @ flush_chunks L enc"
    and "chatNodes (state_of (voiceChatStopBtn_onclick L s)) = (chatNodes s)[i := False]"
    and "\<exists>rest. effects (state_of (voiceChatStopBtn_onclick L s)) =
           effects s @ Disconnect VoiceChat i # StopTracks VoiceChat # Flush VoiceChat # rest"
proof -
  let ?blob = "Blob (chatMp3Data s @ flush_chunks L enc) ''audio/mp3''"
  let ?s1 = "s\<lparr>chatNodes := (chatNodes s)[i := False],
          chatMicStream := Some False,
          chatMp3Encoder := Some (fst (flush L enc)),
          chatMp3Data := chatMp3Data s @ flush_chunks L enc,
          effects := effects s @ [Disconnect VoiceChat i, StopTracks VoiceChat, Flush VoiceChat]\<rparr>"
  let ?s2 = "?s1\<lparr>voiceChatStartBtn_disabled := False,
                     voiceChatStartBtn_display := ''inline-flex'',
                     voiceChatStopBtn_disabled := True,
                     voiceChatStopBtn_display := ''none''\<rparr>"
  let ?msg = "''Please wait for voice instruction transcription to complete...''"
  have c: "chat_stop_capture L s = Return (?blob, ObjectURL ?blob) ?s1"
    by (rule chat_stop_capture_Return [OF assms])
  have "chatMp3Data (state_of (voiceChatStopBtn_onclick L s)) = chatMp3Data ?s1 \<and>
        chatNodes (state_of (voiceChatStopBtn_onclick L s)) = chatNodes ?s1 \<and>
        (\<exists>rest. effects (state_of (voiceChatStopBtn_onclick L s)) = effects ?s1 @ rest)"
  proof (cases "textModal ?msg ?s2")
    case (Throw e s')
    with textModal_frame [of ?msg ?s2] show ?thesis
      by (simp add: voiceChatStopBtn_onclick_def c Let_def)
  next
    case (Return v s3)
    with textModal_frame [of ?msg ?s2] show ?thesis
      by (simp add: voiceChatStopBtn_onclick_def c Let_def)
  qed
  then show "chatMp3Data (state_of (voiceChatStopBtn_onclick L s)) =
      chatMp3Data s @ flush_chunks L enc"
    and "chatNodes (state_of (voiceChatStopBtn_onclick L s)) = (chatNodes s)[i := False]"
    and "\<exists>rest. effects (state_of (voiceChatStopBtn_onclick L s)) =
           effects s @ Disconnect VoiceChat i # StopTracks VoiceChat # Flush VoiceChat # rest"
    by auto
qed

lemma voiceChatStopBtn_onclick_appends:
  "mp3Data (state_of (voiceChatStopBtn_onclick L s)) = mp3Data s \<and>
   extends (chatMp3Data s) (chatMp3Data (state_of (voiceChatStopBtn_onclick L s)))"
proof (cases "chat_stop_capture L s")
  case (Throw e s')
  with chat_stop_capture_appends [of L s] show ?thesis
    by (simp add: voiceChatStopBtn_onclick_def)
next
  case (Return bu s1)
  obtain b u where bu: "bu = (b, u)" by (cases bu)
  let ?s2 = "s1\<lparr>voiceChatStartBtn_disabled := False,
                     voiceChatStartBtn_display := ''inline-flex'',
                     voiceChatStopBtn_disabled := True,
                     voiceChatStopBtn_display := ''none''\<rparr>"
  let ?msg = "''Please wait for voice instruction transcription to complete...''"
  from Return chat_stop_capture_appends [of L s]
  have s1: "mp3Data s1 = mp3Data s" "extends (chatMp3Data s) (chatMp3Data s1)"
    by simp_all
  show ?thesis
  proof (cases "textModal ?msg ?s2")
    case (Throw e s')
    with textModal_frame [of ?msg ?s2] s1 Return bu show ?thesis
      by (simp add: voiceChatStopBtn_onclick_def Let_def)
  next
    case (Return v s3)
    with textModal_frame [of ?msg ?s2] s1 \<open>chat_stop_capture L s = Return bu s1\<close> bu
    show ?thesis
      by (simp add: voiceChatStopBtn_onclick_def Let_def)
  qed
qed

subsection \<open>Every event but a restart only appends\<close>

lemma settle_buffers:
  assumes "\<And>s. same_buffers s (callback s)"
  shows "same_buffers s (settle p callback s)"
proof (cases "p \<in> set (pending s)")
  case True
  have "same_buffers (s\<lparr>pending := remove1 p (pending s)\<rparr>)
      (callback (s\<lparr>pending := remove1 p (pending s)\<rparr>))"
    by (rule assms)
  with True show ?thesis by (simp add: settle_def same_buffers_def)
next
  case False
  then show ?thesis by (simp add: settle_def same_buffers_refl)
qed

lemma settle_field:
  assumes "\<And>s. f (callback s) = f s" and "\<And>s ps. f (s\<lparr>pending := ps\<rparr>) = f s"
  shows "f (settle p callback s) = f s"
  using assms by (simp add: settle_def)

lemma dispatch_appends:
  assumes "\<not> restarts fl ev"
  shows "extends (buffer_of fl s) (buffer_of fl (dispatch L ev s))"
proof (cases ev)
  case (StartClick rate)
  with same_buffers_extends [OF startBtn_onclick_buffers [of s rate], of fl] show ?thesis
    by (simp add: dispatch_def extends_refl)
next
  case (StartResume granted)
  with assms have fl: "fl = VoiceChat" by (cases fl) simp_all
  have "chatMp3Data (settle (UserMediaPromise Primary)
          (\<lambda>s. state_of (startBtn_onclick_resume L granted s)) s) = chatMp3Data s"
    by (rule settle_field) (simp_all add: startBtn_onclick_resume_chat)
  with StartResume fl show ?thesis
    by (simp add: dispatch_def extends_refl)
next
  case (AudioProcess fl' i input)
  from dispatch_audio_appends [of fl L fl' i input s]
  obtain cs where "buffer_of fl (dispatch L (AudioProcess fl' i input) s) = buffer_of fl s @ cs" ..
  with AudioProcess show ?thesis by (simp add: extends_append)
next
  case (IntervalElapsed t)
  with same_buffers_extends [OF timer_callback_buffers [of s], of fl] show ?thesis
    by (simp add: dispatch_def extends_refl)
next
  case (StopClick d)
  with stopBtn_onclick_appends [of L d s] show ?thesis
    by (cases fl) (simp_all add: dispatch_def extends_refl)
next
  case (TranscriptionSettled outcome)
  have "same_buffers s
      (settle (FetchPromise Primary) (fetchTranscription_settled outcome) s)"
    by (rule settle_buffers) (rule fetchTranscription_settled_buffers)
  with TranscriptionSettled same_buffers_extends show ?thesis
    by (simp add: dispatch_def)
next
  case (VoiceChatStartClick rate)
  with same_buffers_extends [OF voiceChatStartBtn_onclick_buffers [of s rate], of fl]
  show ?thesis
    by (simp add: dispatch_def extends_refl)
next
  case (VoiceChatStartResume granted)
  with assms have fl: "fl = Primary" by (cases fl) simp_all
  have "mp3Data (settle (UserMediaPromise VoiceChat)
          (\<lambda>s. state_of (voiceChatStartBtn_onclick_resume L granted s)) s) = mp3Data s"
    by (rule settle_field) (simp_all add: voiceChatStartBtn_onclick_resume_primary)
  with VoiceChatStartResume fl show ?thesis
    by (simp add: dispatch_def extends_refl)
next
  case VoiceChatStopClick
  with voiceChatStopBtn_onclick_appends [of L s] show ?thesis
    by (cases fl) (simp_all add: dispatch_def extends_refl)
next
  case (VoiceChatSettled outcome)
  have "same_buffers s (settle (FetchPromise VoiceChat) (voiceChat_settled outcome) s)"
    by (rule settle_buffers) (rule voiceChat_settled_buffers)
  with VoiceChatSettled same_buffers_extends show ?thesis
    by (simp add: dispatch_def)
qed

subsection \<open>Finalization\<close>

lemma stop_click_capture:
  assumes "processor_of fl s = Some i" and "stream_of fl s = Some live"
    and "encoder_of fl s = Some enc"
  shows "buffer_of fl (state_of (stop_click L d fl s)) = buffer_of fl s @ flush_chunks L enc"
    and "nodes_of fl (state_of (stop_click L d fl s)) = (nodes_of fl s)[i := False]"
    and "\<exists>rest. effects (state_of (stop_click L d fl s)) =
           effects s @ Disconnect fl i # StopTracks fl # Flush fl # rest"
    and "capture_of L fl s =
           Return (Blob (buffer_of fl s @ flush_chunks L enc) ''audio/mp3'',
                   ObjectURL (Blob (buffer_of fl s @ flush_chunks L enc) ''audio/mp3''))
             (state_of (capture_of L fl s))"
proof -
  have "buffer_of fl (state_of (stop_click L d fl s)) = buffer_of fl s @ flush_chunks L enc \<and>
    nodes_of fl (state_of (stop_click L d fl s)) = (nodes_of fl s)[i := False] \<and>
    (\<exists>rest. effects (state_of (stop_click L d fl s)) =
           effects s @ Disconnect fl i # StopTracks fl # Flush fl # rest) \<and>
    capture_of L fl s =
           Return (Blob (buffer_of fl s @ flush_chunks L enc) ''audio/mp3'',
                   ObjectURL (Blob (buffer_of fl s @ flush_chunks L enc) ''audio/mp3''))
             (state_of (capture_of L fl s))"
  proof (cases fl)
    case Primary
    with assms have a: "scriptProcessor s = Some i" "micStream s = Some live"
      "mp3Encoder s = Some enc"
      by simp_all
    from stopBtn_onclick_capture [OF a, of L d] stop_capture_Return [OF a, of L] Primary
    show ?thesis by simp
  next
    case VoiceChat
    with assms have a: "chatScriptProcessor s = Some i" "chatMicStream s = Some live"
      "chatMp3Encoder s = Some enc"
      by simp_all
    from voiceChatStopBtn_onclick_capture [OF a, of L] chat_stop_capture_Return [OF a, of L]
      VoiceChat
    show ?thesis by simp
  qed
  then show "buffer_of fl (state_of (stop_click L d fl s)) = buffer_of fl s @ flush_chunks L enc"
    and "nodes_of fl (state_of (stop_click L d fl s)) = (nodes_of fl s)[i := False]"
    and "\<exists>rest. effects (state_of (stop_click L d fl s)) =
           effects s @ Disconnect fl i # StopTracks fl # Flush fl # rest"
    and "capture_of L fl s =
           Return (Blob (buffer_of fl s @ flush_chunks L enc) ''audio/mp3'',
                   ObjectURL (Blob (buffer_of fl s @ flush_chunks L enc) ''audio/mp3''))
             (state_of (capture_of L fl s))"
    by blast+
qed

text \<open>
  Claim C6, as amended. Let a session of either flow be running, its node being the
  only connected node of that flow. Then
  \<^item> every event other than the second half of that flow's start handler leaves the
    buffer as it is or appends to it;
  \<^item> the stop handler calls \<^verbatim>\<open>disconnect\<close> before \<^verbatim>\<open>flush\<close>, appends the flushed bytes
    (if any) as the last chunk, and the artifact is the concatenation of the buffer as
    it was and the flushed bytes;
  \<^item> after the stop handler, audio callbacks, in any number and for any node, do not
    change the buffer.
\<close>

theorem buffer_final_after_stop:
  assumes "processor_of fl s = Some i" and "stream_of fl s = Some live"
    and "encoder_of fl s = Some enc"
    and "True \<notin> set ((nodes_of fl s)[i := False])"
    and "list_all is_audio evs"
    and "\<not> restarts fl ev"
  shows "extends (buffer_of fl s) (buffer_of fl (dispatch L ev s)) \<and>
         buffer_of fl (state_of (stop_click L d fl s)) = buffer_of fl s @ flush_chunks L enc \<and>
         (\<exists>rest. effects (state_of (stop_click L d fl s)) =
            effects s @ Disconnect fl i # StopTracks fl # Flush fl # rest) \<and>
         (case capture_of L fl s of
            Throw e s' \<Rightarrow> False
          | Return (artifact, url) s' \<Rightarrow>
              blob_bytes artifact = concat (buffer_of fl s) @ snd (flush L enc)) \<and>
         buffer_of fl (run L evs (state_of (stop_click L d fl s))) =
           buffer_of fl (state_of (stop_click L d fl s))"
proof -
  note c = stop_click_capture [OF assms(1,2,3)]
  have n: "True \<notin> set (nodes_of fl (state_of (stop_click L d fl s)))"
    using assms(4) by (simp add: c(2))
  have "case capture_of L fl s of
            Throw e s' \<Rightarrow> False
          | Return (artifact, url) s' \<Rightarrow>
              blob_bytes artifact = concat (buffer_of fl s) @ snd (flush L enc)"
    by (subst c(4)) (simp add: Blob_def concat_flush_chunks)
  with dispatch_appends [OF assms(6), of s L] c(1) c(3)
    run_audio_disconnected [OF n assms(5), of L]
  show ?thesis by blast
qed

subsection \<open>Two overlapping starts, evaluated\<close>

lemma overlapping_starts_fields:
  "mp3Data (run toy_lamejs overlapping_starts loaded_page) = [[85, 85], [255, 251]]"
  "nodes (run toy_lamejs overlapping_starts loaded_page) = [True, False]"
  "scriptProcessor (run toy_lamejs overlapping_starts loaded_page) = Some 1"
  "mp3Encoder (run toy_lamejs overlapping_starts loaded_page) = Some 0"
  "effects (run toy_lamejs overlapping_starts loaded_page) =
     [GetUserMedia Primary, GetUserMedia Primary, SetInterval 0, SetInterval 1,
      Disconnect Primary 1, StopTracks Primary, Flush Primary, ClearInterval (Some 1)]"
  by (simp_all add: overlapping_starts_def dispatch_def settle_def
      startBtn_onclick_def startBtn_onclick_resume_def onaudioprocess_def
      stopBtn_onclick_def stop_capture_def stop_update_page_def stop_submit_def
      textModal_def clearInterval_def Blob_def createObjectURL_def
      Let_def loaded_page_recorder toy_lamejs_def example_input_def floatTo16BitPCM_def
      formattedDateTime_example script_globals_def)

text \<open>
  The claim as stated fails when the start button is clicked twice before the
  microphone permission settles (the button is disabled only after the \<^verbatim>\<open>await\<close>). Both
  clicks create and connect a node; the stop handler disconnects the second one only.
  After the stop handler has flushed the encoder and built the artifact, the first node
  is still connected, and its next callback appends a chunk behind the flushed bytes.
\<close>

theorem chunk_after_flush_counterexample:
  "mp3Data (run toy_lamejs overlapping_starts loaded_page) = [[85, 85], [255, 251]] \<and>
   mp3Data (run toy_lamejs (overlapping_starts @ [AudioProcess Primary 0 example_input])
              loaded_page) =
     [[85, 85], [255, 251], [85, 85]]"
proof -
  let ?s = "run toy_lamejs overlapping_starts loaded_page"
  have chunk: "snd (encodeBuffer toy_lamejs 0 (floatTo16BitPCM example_input)) = [85, 85]"
    by (simp add: toy_lamejs_def example_input_def floatTo16BitPCM_def)
  have "dispatch toy_lamejs (AudioProcess Primary 0 example_input) ?s =
      state_of (onaudioprocess toy_lamejs example_input ?s)"
    by (simp add: dispatch_def overlapping_starts_fields)
  then have "mp3Data (dispatch toy_lamejs (AudioProcess Primary 0 example_input) ?s) =
      [[85, 85], [255, 251], [85, 85]]"
    by (simp add: onaudioprocess_Return [OF overlapping_starts_fields(4)]
        overlapping_starts_fields(1) chunk)
  then show ?thesis
    by (simp add: run_append overlapping_starts_fields(1))
qed

theorem buffer_final_after_stop_witness:
  "extends (buffer_of Primary recorded_page)
     (buffer_of Primary
        (dispatch toy_lamejs (AudioProcess Primary 0 example_input) recorded_page)) \<and>
   buffer_of Primary (state_of (stop_click toy_lamejs example_date Primary recorded_page)) =
     buffer_of Primary recorded_page @ flush_chunks toy_lamejs 8 \<and>
   (\<exists>rest. effects (state_of (stop_click toy_lamejs example_date Primary recorded_page)) =
      effects recorded_page @ Disconnect Primary 0 # StopTracks Primary # Flush Primary # rest) \<and>
   (case capture_of toy_lamejs Primary recorded_page of
      Throw e s' \<Rightarrow> False
    | Return (artifact, url) s' \<Rightarrow>
        blob_bytes artifact =
          concat (buffer_of Primary recorded_page) @ snd (flush toy_lamejs 8)) \<and>
   buffer_of Primary
     (run toy_lamejs
        [AudioProcess Primary 0 example_input, AudioProcess VoiceChat 0 example_input]
        (state_of (stop_click toy_lamejs example_date Primary recorded_page))) =
     buffer_of Primary (state_of (stop_click toy_lamejs example_date Primary recorded_page))"
proof -
  have h: "processor_of Primary recorded_page = Some 0"
    "stream_of Primary recorded_page = Some True"
    "encoder_of Primary recorded_page = Some 8"
    "True \<notin> set ((nodes_of Primary recorded_page)[0 := False])"
    "list_all is_audio
       [AudioProcess Primary 0 example_input, AudioProcess VoiceChat 0 example_input]"
    "\<not> restarts Primary (AudioProcess Primary 0 example_input)"
    by (simp_all add: recorded_page_fields)
  from buffer_final_after_stop [OF h, of toy_lamejs example_date] show ?thesis .
qed

section \<open>The elapsed-time display\<close>

lemma timer_callback_Return:
  assumes "timerDisplay s = Some shown"
  shows "timer_callback s =
     Return () (s\<lparr>seconds := seconds s + 1,
                  timerDisplay := Some (''Recording: '' @ formatTime (seconds s + 1))\<rparr>)"
  using assms by (simp add: timer_callback_def Let_def)

lemma run_ticks:
  assumes "t < length (timers s)" and "timers s ! t" and "timerDisplay s = Some shown"
  shows "run L (replicate (Suc n) (IntervalElapsed t)) s =
     s\<lparr>seconds := seconds s + Suc n,
       timerDisplay := Some (''Recording: '' @ formatTime (seconds s + Suc n))\<rparr>"
  using assms
proof (induction n arbitrary: s shown)
  case 0
  then show ?case by (simp add: dispatch_def timer_callback_Return)
next
  case (Suc n)
  let ?s = "s\<lparr>seconds := seconds s + 1,
                  timerDisplay := Some (''Recording: '' @ formatTime (seconds s + 1))\<rparr>"
  have d: "dispatch L (IntervalElapsed t) s = ?s"
    using Suc.prems by (simp add: dispatch_def timer_callback_Return)
  have "run L (replicate (Suc n) (IntervalElapsed t)) ?s =
     ?s\<lparr>seconds := seconds ?s + Suc n,
       timerDisplay := Some (''Recording: '' @ formatTime (seconds ?s + Suc n))\<rparr>"
    using Suc.prems by (intro Suc.IH) simp_all
  then show ?case
    by (simp add: d)
qed

text \<open>The display after a start and \<open>n\<close> firings of the interval it created.\<close>

lemma display_after_ticks:
  assumes "\<not> startBtn_disabled s" and "timerDisplay s = Some shown"
  shows "timerDisplay (run L (timed_recording rate (length (timers s)) n) s) =
     Some (''Recording: '' @ formatTime n)"
proof (cases n)
  case 0
  then show ?thesis
    by (simp add: timed_recording_def start_session [OF assms] formatTime_examples)
next
  case (Suc k)
  let ?s1 = "dispatch L (StartResume True) (dispatch L (StartClick rate) s)"
  note st = start_session [OF assms, of L rate]
  have f: "length (timers s) < length (timers ?s1)" "timers ?s1 ! length (timers s)"
    "timerDisplay ?s1 = Some ''Recording: 00:00''" "seconds ?s1 = 0"
    by (simp_all add: st)
  show ?thesis
    unfolding Suc timed_recording_def
    by (simp del: replicate.simps add: run_ticks [OF f(1,2,3)] f(4))
qed

text \<open>
  Claim C9, as amended. After a start, every elapsed-second count \<open>n\<close> that the one-second
  timer reaches is displayed as \<open>Recording: \<close> followed by \<open>formatTime n\<close>, and that
  string is a minutes field, a colon and a seconds field of exactly two decimal digits
  (the tens and the units of \<open>n mod 60\<close>). Below 6000 seconds (one hundred minutes) the
  minutes field has exactly two decimal digits, the tens and the units of \<open>n div 60\<close>,
  zero-padded. From 6000 seconds on the minutes field is the decimal numeral of
  \<open>n div 60\<close>, which consists of decimal digits only and has three of them or more: the
  padding fills up to two characters and never cuts.
\<close>

theorem elapsed_display_mm_ss:
  assumes "\<not> startBtn_disabled s" and "timerDisplay s \<noteq> None"
  shows "timerDisplay (run L (timed_recording rate (length (timers s)) n) s) =
           Some (''Recording: '' @ formatTime n) \<and>
         (if n < 6000
          then formatTime n =
                 [digit_char (n div 600), digit_char (n div 60 mod 10), CHR '':'',
                  digit_char (n mod 60 div 10), digit_char (n mod 10)]
          else formatTime n =
                 String_nat (n div 60) @
                 [CHR '':'', digit_char (n mod 60 div 10), digit_char (n mod 10)] \<and>
               3 \<le> length (String_nat (n div 60)) \<and>
               set (String_nat (n div 60)) \<subseteq> set ''0123456789'')"
proof -
  from assms(2) obtain shown where "timerDisplay s = Some shown" by auto
  from display_after_ticks [OF assms(1) this]
  have shown: "timerDisplay (run L (timed_recording rate (length (timers s)) n) s) =
      Some (''Recording: '' @ formatTime n)" .
  show ?thesis
  proof (cases "n < 6000")
    case True
    from shown formatTime_below_6000 [OF True] True show ?thesis by simp
  next
    case False
    then have long: "6000 \<le> n" by simp
    from shown formatTime_from_6000 [OF long] String_nat_digits [of "n div 60"] False
    show ?thesis by simp
  qed
qed

theorem elapsed_display_mm_ss_witness:
  "timerDisplay (run toy_lamejs (timed_recording 48000 0 3) loaded_page) =
     Some ''Recording: 00:03'' \<and>
   formatTime 3 = ''00:03'' \<and>
   timerDisplay (run toy_lamejs (timed_recording 48000 0 6001) loaded_page) =
     Some ''Recording: 100:01'' \<and>
   formatTime 6001 = ''100:01'' \<and>
   String_nat (6001 div 60) = ''100'' \<and>
   (3::nat) \<le> length (String_nat (6001 div 60))"
proof -
  have h: "\<not> startBtn_disabled loaded_page" "timerDisplay loaded_page \<noteq> None"
    by (simp_all add: loaded_page_recorder)
  have t: "length (timers loaded_page) = 0"
    by (simp add: loaded_page_recorder)
  have m: "String_nat 100 = ''100''"
    by (simp add: String_nat.simps digit_char_def)
  from elapsed_display_mm_ss [OF h, of toy_lamejs 48000 3]
    elapsed_display_mm_ss [OF h, of toy_lamejs 48000 6001]
  show ?thesis
    unfolding t by (simp add: m digit_char_def)
qed

text \<open>
  The claim as stated (exactly two digits in both fields for every count) fails after
  one hundred minutes of recording: the minutes field then has three digits.
\<close>

theorem elapsed_display_counterexample:
  "timerDisplay (run toy_lamejs (timed_recording 48000 0 6000) loaded_page) =
     Some ''Recording: 100:00''"
proof -
  have "timerDisplay (run toy_lamejs (timed_recording 48000 (length (timers loaded_page)) 6000)
      loaded_page) = Some (''Recording: '' @ formatTime 6000)"
    by (rule display_after_ticks) (simp_all add: loaded_page_recorder)
  then show ?thesis
    by (simp add: loaded_page_recorder formatTime_examples)
qed

end
